theory Spec2Isabelle
  imports Main "HOL-Library.Sublist"
begin

section \<open>Values and errors\<close>

text \<open>
  JSON-like Python values: what the algorithms return, what a response body holds
  and what \<^verbatim>\<open>form.errors\<close> is. \<open>JNull\<close> is \<^verbatim>\<open>None\<close>.
\<close>

datatype json =
    JNull
  | JBool bool
  | JInt int
  | JStr string
  | JList "json list"
  | JDict "(string \<times> json) list"

text \<open>
  Every exception the modelled code can raise is a value. \<open>HTTPAbort\<close> is what
  \<^verbatim>\<open>flask.abort(code, description)\<close> raises; \<open>PyException\<close> is a plain
  \<^verbatim>\<open>Exception(text)\<close>.
\<close>

datatype error =
    FileNotFoundError
  | NotADirectoryError
  | IsADirectoryError
  | FileExistsError
  | PermissionError
  | EOFError
  | TypeError
  | ValueError
  | IntegrityError
  | InterfaceError
  | PyException string
  | HTTPAbort nat json

section \<open>Path strings (\<^verbatim>\<open>os.path\<close> on POSIX)\<close>

definition startswith :: "string \<Rightarrow> string \<Rightarrow> bool" where
  "startswith s p = (take (length p) s = p)"

definition endswith :: "string \<Rightarrow> string \<Rightarrow> bool" where
  "endswith s p = (drop (length s - length p) s = p \<and> length p \<le> length s)"

text \<open>\<^verbatim>\<open>s.split('/')\<close>: never empty, one more piece than there are separators.\<close>

fun split_sep :: "string \<Rightarrow> string list" where
  "split_sep [] = [[]]"
| "split_sep (c # cs) =
     (if c = CHR ''/'' then [] # split_sep cs
      else (case split_sep cs of [] \<Rightarrow> [[c]] | x # xs \<Rightarrow> (c # x) # xs))"

fun join_sep :: "string list \<Rightarrow> string" where
  "join_sep [] = []"
| "join_sep [x] = x"
| "join_sep (x # y # ys) = x @ ''/'' @ join_sep (y # ys)"

text \<open>\<^verbatim>\<open>os.path.join(a, b)\<close> for two arguments.\<close>

definition path_join :: "string \<Rightarrow> string \<Rightarrow> string" where
  "path_join a b =
     (if startswith b ''/'' then b
      else if a = [] \<or> endswith a ''/'' then a @ b
      else a @ ''/'' @ b)"

definition isabs :: "string \<Rightarrow> bool" where
  "isabs p = startswith p ''/''"

text \<open>
  \<^verbatim>\<open>os.path.dirname\<close>: everything up to the last separator, with the trailing
  separators stripped unless the head consists of separators only.
\<close>

definition dirname :: "string \<Rightarrow> string" where
  "dirname p =
     (let head = rev (dropWhile (\<lambda>c. c \<noteq> CHR ''/'') (rev p))
      in if head \<noteq> [] \<and> head \<noteq> replicate (length head) (CHR ''/'')
         then rev (dropWhile (\<lambda>c. c = CHR ''/'') (rev head))
         else head)"

text \<open>\<^verbatim>\<open>os.path.normpath\<close>: the loop over the components, then the reassembly.\<close>

definition norm_step :: "nat \<Rightarrow> string list \<Rightarrow> string \<Rightarrow> string list" where
  "norm_step initial_slashes new_comps part =
     (if part = [] \<or> part = ''.'' then new_comps
      else if part \<noteq> ''..'' \<or> (initial_slashes = 0 \<and> new_comps = [])
              \<or> (new_comps \<noteq> [] \<and> last new_comps = ''..'')
           then new_comps @ [part]
      else if new_comps \<noteq> [] then butlast new_comps
      else new_comps)"

definition normpath :: "string \<Rightarrow> string" where
  "normpath p =
     (if p = [] then ''.''
      else
        let initial_slashes =
              (if startswith p ''/''
               then (if startswith p ''//'' \<and> \<not> startswith p ''///'' then 2 else 1)
               else (0::nat));
            new_comps = foldl (norm_step initial_slashes) [] (split_sep p);
            path = replicate initial_slashes (CHR ''/'') @ join_sep new_comps
        in if path = [] then ''.'' else path)"

text \<open>\<^verbatim>\<open>os.path.abspath\<close>; the working directory is the argument \<open>cwd\<close>.\<close>

definition abspath :: "string \<Rightarrow> string \<Rightarrow> string" where
  "abspath cwd p = normpath (if isabs p then p else path_join cwd p)"

text \<open>
  \<^verbatim>\<open>os.path.commonprefix([a, b])\<close>: the longest common leading run of
  characters. (The library takes the smallest and the largest string of the list
  first, which for two strings are the two strings.)
\<close>

fun commonprefix :: "string \<Rightarrow> string \<Rightarrow> string" where
  "commonprefix (x # xs) (y # ys) = (if x = y then x # commonprefix xs ys else [])"
| "commonprefix _ _ = []"

section \<open>The filesystem\<close>

text \<open>
  A file is known to the code only through \<^verbatim>\<open>tarfile.is_tarfile\<close>,
  \<^verbatim>\<open>zipfile.is_zipfile\<close> and the member lists of the two archive readers, so
  that is what a file's content records. \<open>tar_probe\<close> is what the tar reader
  does with the file: it raises an error that is not a \<^verbatim>\<open>TarError\<close> (an
  unreadable or truncated file), it finds no archive (\<open>Inr None\<close>), or it finds
  an archive with its members. A tar member is a name together with its kind, a
  directory or a regular file; a zip member is its name, and a name that ends
  with a separator is a directory. A directory is the list of its entries in the
  order \<^verbatim>\<open>os.scandir\<close> yields them. There are no symbolic links.
\<close>

datatype member = Member (mname: string) (misdir: bool)

datatype content =
  Content (tar_probe: "error + member list option") (zip_members: "string list option")

datatype node = File content | Dir "(string \<times> node) list"

record filesystem =
  root :: node
  cwd :: string

definition plain :: content where
  "plain = Content (Inr None) None"

fun node_at :: "node \<Rightarrow> string list \<Rightarrow> error + node" where
  "node_at n [] = Inr n"
| "node_at (File c) (x # xs) = Inl NotADirectoryError"
| "node_at (Dir es) (x # xs) =
     (case map_of es x of None \<Rightarrow> Inl FileNotFoundError | Some n \<Rightarrow> node_at n xs)"

text \<open>
  The kernel resolves a path one component at a time. \<open>cur\<close> is where the walk
  stands, as the list of names from the root. Each component, the empty one
  after a trailing separator too, is taken from what must be an existing
  directory (\<^verbatim>\<open>ENOENT\<close>, \<^verbatim>\<open>ENOTDIR\<close>); an empty component and \<open>.\<close> stay,
  \<open>..\<close> goes to the parent, which for the root is the root. A relative path
  starts at the working directory.
\<close>

definition walk_step :: "string list \<Rightarrow> string \<Rightarrow> string list" where
  "walk_step cur c =
     (if c = [] \<or> c = ''.'' then cur
      else if c = ''..'' then butlast cur
      else cur @ [c])"

fun resolve :: "node \<Rightarrow> string list \<Rightarrow> string list \<Rightarrow> error + string list" where
  "resolve r cur [] = Inr cur"
| "resolve r cur (c # cs) =
     (case node_at r cur of
        Inl e \<Rightarrow> Inl e
      | Inr (File _) \<Rightarrow> Inl NotADirectoryError
      | Inr (Dir _) \<Rightarrow> resolve r (walk_step cur c) cs)"

definition path_comps :: "filesystem \<Rightarrow> string \<Rightarrow> string list" where
  "path_comps fs p = (if isabs p then [] else split_sep (cwd fs)) @ split_sep p"

text \<open>What a path names. The empty path names nothing (\<^verbatim>\<open>ENOENT\<close>).\<close>

definition lookup :: "filesystem \<Rightarrow> string \<Rightarrow> error + node" where
  "lookup fs p =
     (if p = [] then Inl FileNotFoundError
      else case resolve (root fs) [] (path_comps fs p) of
             Inl e \<Rightarrow> Inl e
           | Inr cs \<Rightarrow> node_at (root fs) cs)"

definition isdir :: "filesystem \<Rightarrow> string \<Rightarrow> bool" where
  "isdir fs p = (case lookup fs p of Inr (Dir _) \<Rightarrow> True | _ \<Rightarrow> False)"

definition isfile :: "filesystem \<Rightarrow> string \<Rightarrow> bool" where
  "isfile fs p = (case lookup fs p of Inr (File _) \<Rightarrow> True | _ \<Rightarrow> False)"

definition exists :: "filesystem \<Rightarrow> string \<Rightarrow> bool" where
  "exists fs p = (case lookup fs p of Inr _ \<Rightarrow> True | Inl _ \<Rightarrow> False)"

text \<open>
  A directory entry's name is a non-empty string without a separator, and
  \<^verbatim>\<open>os.scandir\<close> never yields \<open>.\<close> and \<open>..\<close>. The entries are an
  association list: an entry with the name of an earlier entry is shadowed by it
  and is not part of the directory.
\<close>

definition entry_name_ok :: "string \<Rightarrow> bool" where
  "entry_name_ok n = (n \<noteq> [] \<and> n \<noteq> ''.'' \<and> n \<noteq> ''..'' \<and> CHR ''/'' \<notin> set n)"

definition scandir :: "filesystem \<Rightarrow> string \<Rightarrow> error + (string \<times> node) list" where
  "scandir fs p =
     (case lookup fs p of
        Inl e \<Rightarrow> Inl e
      | Inr (File _) \<Rightarrow> Inl NotADirectoryError
      | Inr (Dir es) \<Rightarrow>
          Inr (filter (\<lambda>(n, x). entry_name_ok n \<and> map_of es n = Some x) es))"

definition is_dir_entry :: "string \<times> node \<Rightarrow> bool" where
  "is_dir_entry e = (case snd e of Dir _ \<Rightarrow> True | File _ \<Rightarrow> False)"

text \<open>
  \<^verbatim>\<open>tarfile.is_tarfile\<close> opens the file, so a missing file raises; the empty
  name is refused with \<^verbatim>\<open>ValueError\<close> before anything is opened. Only a
  \<^verbatim>\<open>TarError\<close> is turned into the answer False.
\<close>

definition is_tarfile :: "filesystem \<Rightarrow> string \<Rightarrow> error + bool" where
  "is_tarfile fs p =
     (if p = [] then Inl ValueError
      else case lookup fs p of
             Inl e \<Rightarrow> Inl e
           | Inr (Dir _) \<Rightarrow> Inl IsADirectoryError
           | Inr (File c) \<Rightarrow>
               (case tar_probe c of
                  Inl e \<Rightarrow> Inl e
                | Inr ms \<Rightarrow> Inr (ms \<noteq> None)))"

text \<open>\<^verbatim>\<open>zipfile.is_zipfile\<close> answers False where the file cannot be opened.\<close>

definition is_zipfile :: "filesystem \<Rightarrow> string \<Rightarrow> bool" where
  "is_zipfile fs p =
     (case lookup fs p of Inr (File c) \<Rightarrow> zip_members c \<noteq> None | _ \<Rightarrow> False)"

subsection \<open>Writing\<close>

fun set_entry :: "string \<Rightarrow> node \<Rightarrow> (string \<times> node) list \<Rightarrow> (string \<times> node) list" where
  "set_entry k v [] = [(k, v)]"
| "set_entry k v ((k', v') # es) =
     (if k = k' then (k, v) # es else (k', v') # set_entry k v es)"

text \<open>
  The tree with \<open>new\<close> put at the place \<open>cs\<close>. The place's parent must be a
  directory, and a directory at the place is not replaced.
\<close>

fun write_at :: "string list \<Rightarrow> node \<Rightarrow> node \<Rightarrow> error + node" where
  "write_at [] new t = Inl IsADirectoryError"
| "write_at (x # xs) new (File c) = Inl NotADirectoryError"
| "write_at [x] new (Dir es) =
     (case map_of es x of
        Some (Dir _) \<Rightarrow> Inl IsADirectoryError
      | _ \<Rightarrow> Inr (Dir (set_entry x new es)))"
| "write_at (x # y # ys) new (Dir es) =
     (case map_of es x of
        None \<Rightarrow> Inl FileNotFoundError
      | Some n \<Rightarrow>
          (case write_at (y # ys) new n of
             Inl e \<Rightarrow> Inl e
           | Inr n' \<Rightarrow> Inr (Dir (set_entry x n' es))))"

text \<open>\<^verbatim>\<open>p.rstrip('/')\<close>.\<close>

definition rstrip_sep :: "string \<Rightarrow> string" where
  "rstrip_sep p = rev (dropWhile (\<lambda>c. c = CHR ''/'') (rev p))"

text \<open>
  Where a new entry goes: the path up to its last component must resolve to an
  existing directory. The result is that directory's place and the name of the
  last component. \<open>p\<close> has no trailing separator.
\<close>

definition locate_parent :: "filesystem \<Rightarrow> string \<Rightarrow> error + string list \<times> string" where
  "locate_parent fs p =
     (let comps = path_comps fs p
      in case resolve (root fs) [] (butlast comps) of
           Inl e \<Rightarrow> Inl e
         | Inr cs \<Rightarrow>
             (case node_at (root fs) cs of
                Inl e \<Rightarrow> Inl e
              | Inr (File _) \<Rightarrow> Inl NotADirectoryError
              | Inr (Dir _) \<Rightarrow> Inr (cs, last comps)))"

text \<open>
  \<^verbatim>\<open>open(path, 'wb')\<close> followed by the write, as Linux answers it: the
  directory of the file must exist; a path that ends with a separator or
  names a directory is refused with \<^verbatim>\<open>EISDIR\<close>; an existing regular file is
  replaced.
\<close>

definition write_file :: "filesystem \<Rightarrow> string \<Rightarrow> content \<Rightarrow> error + filesystem" where
  "write_file fs p c =
     (if p = [] then Inl FileNotFoundError
      else if rstrip_sep p = [] then Inl IsADirectoryError
      else case locate_parent fs (rstrip_sep p) of
             Inl e \<Rightarrow> Inl e
           | Inr (cs, name) \<Rightarrow>
               if name = ''.'' \<or> name = ''..'' \<or> rstrip_sep p \<noteq> p then Inl IsADirectoryError
               else (case write_at (cs @ [name]) (File c) (root fs) of
                       Inl e \<Rightarrow> Inl e
                     | Inr r \<Rightarrow> Inr (fs\<lparr>root := r\<rparr>)))"

text \<open>
  \<^verbatim>\<open>os.mkdir(path)\<close>, as Linux answers it: trailing separators do not count;
  the parent must exist; a name that is taken, by a file or by a directory,
  is refused with \<^verbatim>\<open>EEXIST\<close>. The filesystem returned with an error is the
  one given.
\<close>

definition os_mkdir :: "filesystem \<Rightarrow> string \<Rightarrow> (error + unit) \<times> filesystem" where
  "os_mkdir fs p =
     (if p = [] then (Inl FileNotFoundError, fs)
      else if rstrip_sep p = [] then (Inl FileExistsError, fs)
      else case locate_parent fs (rstrip_sep p) of
             Inl e \<Rightarrow> (Inl e, fs)
           | Inr (cs, name) \<Rightarrow>
               if name = ''.'' \<or> name = ''..'' then (Inl FileExistsError, fs)
               else (case node_at (root fs) (cs @ [name]) of
                       Inr _ \<Rightarrow> (Inl FileExistsError, fs)
                     | Inl _ \<Rightarrow>
                         (case write_at (cs @ [name]) (Dir []) (root fs) of
                            Inl e \<Rightarrow> (Inl e, fs)
                          | Inr r \<Rightarrow> (Inr (), fs\<lparr>root := r\<rparr>))))"

text \<open>
  \<^verbatim>\<open>os.path.split\<close> cuts a path after its last separator; \<^verbatim>\<open>dirname\<close> is
  the head and \<open>basename\<close> the tail. \<^verbatim>\<open>os.makedirs\<close> splits the name, and
  where the tail is empty it splits the head again.
\<close>

definition basename :: "string \<Rightarrow> string" where
  "basename p = rev (takeWhile (\<lambda>c. c \<noteq> CHR ''/'') (rev p))"

definition makedirs_split :: "string \<Rightarrow> string \<times> string" where
  "makedirs_split name =
     (if basename name = [] then (dirname (dirname name), basename (dirname name))
      else (dirname name, basename name))"

lemma length_dirname: "length (dirname p) + length (basename p) \<le> length p"
proof -
  let ?h = "dropWhile (\<lambda>c. c \<noteq> CHR ''/'') (rev p)"
  have "length (takeWhile (\<lambda>c. c \<noteq> CHR ''/'') (rev p)) + length ?h = length p"
    by (metis length_append length_rev takeWhile_dropWhile_id)
  moreover have "length (dirname p) \<le> length ?h"
    by (simp add: dirname_def Let_def length_dropWhile_le)
  ultimately show ?thesis
    by (simp add: basename_def)
qed

lemma makedirs_split_less:
  assumes "snd (makedirs_split name) \<noteq> []"
  shows "length (fst (makedirs_split name)) < length name"
proof (cases "basename name = []")
  case True
  then have "0 < length (basename (dirname name))"
    using assms by (simp add: makedirs_split_def)
  then have "length (dirname (dirname name)) < length (dirname name)"
    using length_dirname[of "dirname name"] by linarith
  moreover have "length (dirname name) \<le> length name"
    using length_dirname[of name] by simp
  ultimately show ?thesis
    using True by (simp add: makedirs_split_def)
next
  case False
  then have "0 < length (basename name)" by simp
  then have "length (dirname name) < length name"
    using length_dirname[of name] by linarith
  then show ?thesis
    using False by (simp add: makedirs_split_def)
qed

text \<open>
  \<^verbatim>\<open>os.makedirs(name)\<close> with \<^verbatim>\<open>exist_ok=False\<close>: where the head does not
  exist it is made first, and a \<^verbatim>\<open>FileExistsError\<close> from there is passed
  over; then the leaf is made, unless the tail is \<open>.\<close>. What was created
  stays when a later step fails.
\<close>

function makedirs :: "filesystem \<Rightarrow> string \<Rightarrow> (error + unit) \<times> filesystem" where
  "makedirs fs name =
     (let head = fst (makedirs_split name);
          tail = snd (makedirs_split name)
      in if head \<noteq> [] \<and> tail \<noteq> [] \<and> \<not> exists fs head then
           (case makedirs fs head of
              (Inl e, fs') \<Rightarrow>
                if e \<noteq> FileExistsError then (Inl e, fs')
                else if tail = ''.'' then (Inr (), fs')
                else os_mkdir fs' name
            | (Inr _, fs') \<Rightarrow>
                if tail = ''.'' then (Inr (), fs')
                else os_mkdir fs' name)
         else os_mkdir fs name)"
  by pat_completeness auto
termination
  by (relation "measure (\<lambda>(fs, name). length name)") (auto simp: makedirs_split_less)

declare makedirs.simps [simp del]

subsection \<open>The archive readers\<close>

text \<open>
  \<^verbatim>\<open>TarFile._extract_member\<close>: the trailing separators of the target are
  stripped, the upper directories are made where they do not exist, and then a
  directory member is made with \<^verbatim>\<open>os.mkdir\<close>, whose \<^verbatim>\<open>FileExistsError\<close> is
  swallowed (as the \<^verbatim>\<open>TarFile.makedir\<close> of the library versions of the
  program's time does; later versions raise it when the name is taken by a
  regular file), and a file member is opened for writing.
\<close>

definition tar_extract_member ::
  "filesystem \<Rightarrow> string \<Rightarrow> member \<Rightarrow> (error + unit) \<times> filesystem" where
  "tar_extract_member fs target m =
     (let targetpath = rstrip_sep target;
          upperdirs = dirname targetpath
      in case (if upperdirs \<noteq> [] \<and> \<not> exists fs upperdirs then makedirs fs upperdirs
               else (Inr (), fs)) of
           (Inl e, fs') \<Rightarrow> (Inl e, fs')
         | (Inr _, fs') \<Rightarrow>
             if misdir m then
               (case os_mkdir fs' targetpath of
                  (Inl e, fs'') \<Rightarrow>
                    if e = FileExistsError then (Inr (), fs'') else (Inl e, fs'')
                | (Inr _, fs'') \<Rightarrow> (Inr (), fs''))
             else
               (case write_file fs' targetpath plain of
                  Inl e \<Rightarrow> (Inl e, fs')
                | Inr fs'' \<Rightarrow> (Inr (), fs'')))"

text \<open>
  \<^verbatim>\<open>TarFile.extractall(path)\<close> writes every member at
  \<^verbatim>\<open>os.path.join(path, member.name)\<close>, whatever the name is. It stops at the
  first error and leaves what it has written.
\<close>

fun tar_extractall :: "filesystem \<Rightarrow> string \<Rightarrow> member list \<Rightarrow> (error + unit) \<times> filesystem" where
  "tar_extractall fs path [] = (Inr (), fs)"
| "tar_extractall fs path (m # ms) =
     (case tar_extract_member fs (path_join path (mname m)) m of
        (Inl e, fs') \<Rightarrow> (Inl e, fs')
      | (Inr _, fs') \<Rightarrow> tar_extractall fs' path ms)"

text \<open>
  \<^verbatim>\<open>ZipFile._extract_member\<close> drops the empty, \<open>.\<close> and \<open>..\<close> components
  of a member's name, joins what is left to \<open>path\<close> and normalises the result.
  It makes the upper directories where they do not exist; a directory member
  is made with \<^verbatim>\<open>os.mkdir\<close> unless the directory is there, a file member is
  opened for writing.
\<close>

definition zip_arcname :: "string \<Rightarrow> string" where
  "zip_arcname n =
     join_sep (filter (\<lambda>x. x \<noteq> [] \<and> x \<noteq> ''.'' \<and> x \<noteq> ''..'') (split_sep n))"

definition zip_extract_member ::
  "filesystem \<Rightarrow> string \<Rightarrow> string \<Rightarrow> (error + unit) \<times> filesystem" where
  "zip_extract_member fs path filename =
     (let targetpath = normpath (path_join path (zip_arcname filename));
          upperdirs = dirname targetpath
      in case (if upperdirs \<noteq> [] \<and> \<not> exists fs upperdirs then makedirs fs upperdirs
               else (Inr (), fs)) of
           (Inl e, fs') \<Rightarrow> (Inl e, fs')
         | (Inr _, fs') \<Rightarrow>
             if endswith filename ''/'' then
               (if \<not> isdir fs' targetpath then os_mkdir fs' targetpath else (Inr (), fs'))
             else
               (case write_file fs' targetpath plain of
                  Inl e \<Rightarrow> (Inl e, fs')
                | Inr fs'' \<Rightarrow> (Inr (), fs'')))"

text \<open>\<^verbatim>\<open>ZipFile.extractall(path)\<close>: every member in turn, up to the first error.\<close>

fun zip_extractall :: "filesystem \<Rightarrow> string \<Rightarrow> string list \<Rightarrow> (error + unit) \<times> filesystem" where
  "zip_extractall fs path [] = (Inr (), fs)"
| "zip_extractall fs path (m # ms) =
     (case zip_extract_member fs path m of
        (Inl e, fs') \<Rightarrow> (Inl e, fs')
      | (Inr _, fs') \<Rightarrow> zip_extractall fs' path ms)"

section \<open>Requests and the process environment\<close>

text \<open>
  A submitted form, as the handlers read it: whether \<^verbatim>\<open>validate_on_submit()\<close>
  accepts it, \<^verbatim>\<open>form.errors\<close>, \<^verbatim>\<open>form.response.data\<close>, and the resource. For
  a path form \<open>resource_data\<close> is the path; for a file form it is the upload's
  file name and \<open>resource_content\<close> is what the upload holds.
\<close>

record form =
  validate_on_submit :: bool
  form_errors :: json
  resource_data :: string
  resource_content :: content
  response_data :: string

text \<open>
  What the code takes from its surroundings: two environment variables
  (\<open>TEMPDIR\<close> stands for \<^verbatim>\<open>getenv('TEMPDIR') or gettempdir()\<close>), the token
  \<^verbatim>\<open>str(uuid4())\<close> of the current request, \<^verbatim>\<open>werkzeug\<close>'s
  \<^verbatim>\<open>secure_filename\<close>, and the six delegated algorithms of
  \<^verbatim>\<open>clustering_outliers.models\<close>. An algorithm returns its result or raises;
  \<open>Inl\<close> carries \<^verbatim>\<open>str(e)\<close> of the exception.
\<close>

record environment =
  TEMPDIR :: string
  OUTPUT_DIR :: string
  uuid4 :: string
  secure_filename :: "string \<Rightarrow> string"
  kmeams :: "form \<Rightarrow> string \<Rightarrow> string + json"
  dbscan :: "form \<Rightarrow> string \<Rightarrow> string + json"
  agglomerative_clustering :: "form \<Rightarrow> string \<Rightarrow> string + json"
  isolation_forest :: "form \<Rightarrow> string \<Rightarrow> string + json"
  local_outlier_factor :: "form \<Rightarrow> string \<Rightarrow> string + json"
  one_class_svm :: "form \<Rightarrow> string \<Rightarrow> string + json"

section \<open>\<^verbatim>\<open>utils.py\<close>\<close>

subsection \<open>\<^verbatim>\<open>get_subdirectories\<close> and \<^verbatim>\<open>get_extracted_path\<close>\<close>

definition get_subdirectories :: "filesystem \<Rightarrow> string \<Rightarrow> error + string list" where
  "get_subdirectories fs folder_path =
     (case scandir fs folder_path of
        Inl e \<Rightarrow> Inl e
      | Inr entries \<Rightarrow>
          Inr (map fst (filter (\<lambda>entry. \<not> startswith (fst entry) ''.'' \<and> is_dir_entry entry)
                          entries)))"

text \<open>
  The recursion of \<^verbatim>\<open>get_extracted_path\<close> goes one directory down at each call;
  the size of the tree below the path is what decreases. The depth of the
  recursion is not bounded here; the interpreter bounds it (about a thousand
  nested directories end in \<^verbatim>\<open>RecursionError\<close>).
\<close>

definition subtree_size :: "filesystem \<Rightarrow> string \<Rightarrow> nat" where
  "subtree_size fs p = (case lookup fs p of Inl _ \<Rightarrow> 0 | Inr n \<Rightarrow> size n)"

lemma split_sep_nonempty: "split_sep s \<noteq> []"
  by (induction s) (auto split: list.splits)

lemma split_sep_append: "split_sep (a @ CHR ''/'' # b) = split_sep a @ split_sep b"
  using split_sep_nonempty
  by (induction a) (auto split: list.splits)

lemma split_sep_plain: "CHR ''/'' \<notin> set s \<Longrightarrow> split_sep s = [s]"
  by (induction s) auto

lemma endswith_sep: "endswith p ''/'' \<Longrightarrow> \<exists>q. p = q @ ''/''"
  unfolding endswith_def
  by (metis append_take_drop_id)

lemma path_comps_join:
  assumes "p \<noteq> []" and "entry_name_ok s"
  shows "\<exists>cs x. (x = [] \<or> x = [[]]) \<and> path_comps fs p = cs @ x
           \<and> path_comps fs (path_join p s) = cs @ [s]"
proof -
  from assms(2) have s: "s \<noteq> []" "CHR ''/'' \<notin> set s"
    by (auto simp: entry_name_ok_def)
  from s have ns: "\<not> startswith s ''/''"
    by (cases s) (auto simp: startswith_def)
  let ?start = "if isabs p then [] else split_sep (cwd fs)"
  show ?thesis
  proof (cases "endswith p ''/''")
    case True
    then obtain q where q: "p = q @ ''/''" using endswith_sep by blast
    have j: "path_join p s = q @ CHR ''/'' # s"
      using True ns q by (simp add: path_join_def)
    have a: "isabs (q @ CHR ''/'' # s) = isabs p"
      using q by (cases q) (auto simp: isabs_def startswith_def)
    have sp: "split_sep p = split_sep q @ [[]]"
      using split_sep_append[of q "[]"] q by simp
    have "path_comps fs p = (?start @ split_sep q) @ [[]]"
      by (simp add: path_comps_def sp)
    moreover have "path_comps fs (path_join p s) = (?start @ split_sep q) @ [s]"
      using s by (simp add: j a path_comps_def split_sep_append split_sep_plain)
    ultimately show ?thesis by blast
  next
    case False
    have j: "path_join p s = p @ CHR ''/'' # s"
      using False ns assms(1) by (simp add: path_join_def)
    have a: "isabs (p @ CHR ''/'' # s) = isabs p"
      using assms(1) by (cases p) (auto simp: isabs_def startswith_def)
    have "path_comps fs p = path_comps fs p @ []" by simp
    moreover have "path_comps fs (path_join p s) = path_comps fs p @ [s]"
      using s by (simp add: j a path_comps_def split_sep_append split_sep_plain)
    ultimately show ?thesis by blast
  qed
qed

lemma resolve_append:
  "resolve r cur (xs @ ys) =
     (case resolve r cur xs of Inl e \<Rightarrow> Inl e | Inr c \<Rightarrow> resolve r c ys)"
  by (induction xs arbitrary: cur) (auto split: sum.splits node.splits)

lemma node_at_snoc:
  "node_at n (cs @ [s]) =
     (case node_at n cs of
        Inl e \<Rightarrow> Inl e
      | Inr (File _) \<Rightarrow> Inl NotADirectoryError
      | Inr (Dir es) \<Rightarrow> (case map_of es s of None \<Rightarrow> Inl FileNotFoundError | Some m \<Rightarrow> Inr m))"
  by (induction n cs rule: node_at.induct) (auto split: option.splits node.splits sum.splits)

lemma size_entry: "map_of es s = Some m \<Longrightarrow> size m < size (Dir es)"
  by (induction es) (auto split: if_splits)

lemma path_join_nonempty: "s \<noteq> [] \<Longrightarrow> path_join p s \<noteq> []"
  by (auto simp: path_join_def)

lemma lookup_child:
  assumes "lookup fs p = Inr (Dir es)" and "entry_name_ok s"
  shows "lookup fs (path_join p s) =
           (case map_of es s of None \<Rightarrow> Inl FileNotFoundError | Some m \<Rightarrow> Inr m)"
proof -
  from assms(1) have p: "p \<noteq> []" by (auto simp: lookup_def split: if_splits)
  from assms(2) have s: "s \<noteq> []" "s \<noteq> ''.''" "s \<noteq> ''..''"
    by (auto simp: entry_name_ok_def)
  from path_comps_join[OF p assms(2), of fs] obtain cs x where
    x: "x = [] \<or> x = [[]]" and cp: "path_comps fs p = cs @ x"
    and cj: "path_comps fs (path_join p s) = cs @ [s]"
    by blast
  from assms(1) p obtain c where c: "resolve (root fs) [] (cs @ x) = Inr c"
    and n: "node_at (root fs) c = Inr (Dir es)"
    by (auto simp: lookup_def cp split: sum.splits)
  from c obtain c' where c': "resolve (root fs) [] cs = Inr c'"
    and cx: "resolve (root fs) c' x = Inr c"
    by (auto simp: resolve_append split: sum.splits)
  from x cx have "c' = c"
    by (auto simp: walk_step_def split: sum.splits node.splits)
  with c' n s have "resolve (root fs) [] (cs @ [s]) = Inr (c @ [s])"
    by (simp add: resolve_append walk_step_def)
  then show ?thesis
    using n s by (simp add: lookup_def path_join_nonempty cj node_at_snoc)
qed

lemma get_subdirectories_Cons:
  assumes "get_subdirectories fs p = Inr (s # ss)"
  shows "subtree_size fs (path_join p s) < subtree_size fs p"
proof -
  from assms obtain es where es: "lookup fs p = Inr (Dir es)"
    and sub: "s # ss =
        map fst (filter (\<lambda>entry. \<not> startswith (fst entry) ''.'' \<and> is_dir_entry entry)
                   (filter (\<lambda>(n, x). entry_name_ok n \<and> map_of es n = Some x) es))"
    by (auto simp: get_subdirectories_def scandir_def split: sum.splits node.splits)
  have "s \<in> set (s # ss)" by simp
  then have "s \<in> fst ` set es" and ok: "entry_name_ok s"
    unfolding sub by auto
  then obtain m where m: "map_of es s = Some m"
    by (metis map_of_eq_None_iff not_Some_eq)
  have "lookup fs (path_join p s) = Inr m"
    using lookup_child[OF es ok] m by simp
  then show ?thesis
    using es size_entry[OF m] by (simp add: subtree_size_def)
qed

function get_extracted_path :: "filesystem \<Rightarrow> string \<Rightarrow> error + string" where
  "get_extracted_path fs folder_path =
     (case get_subdirectories fs folder_path of
        Inl e \<Rightarrow> Inl e
      | Inr [] \<Rightarrow> Inr folder_path
      | Inr (s # ss) \<Rightarrow> get_extracted_path fs (path_join folder_path s))"
  by pat_completeness auto
termination
  by (relation "measure (\<lambda>(fs, p). subtree_size fs p)") (auto simp: get_subdirectories_Cons)

declare get_extracted_path.simps [simp del]

subsection \<open>\<^verbatim>\<open>uncompress_file\<close>\<close>

text \<open>
  The two nested functions of the tar branch. \<open>wd\<close> is the working directory
  that \<^verbatim>\<open>os.path.abspath\<close> reads.
\<close>

definition is_within_directory :: "string \<Rightarrow> string \<Rightarrow> string \<Rightarrow> bool" where
  "is_within_directory wd directory target =
     (let abs_directory = abspath wd directory;
          abs_target = abspath wd target;
          prefix = commonprefix abs_directory abs_target
      in prefix = abs_directory)"

text \<open>The loop of \<^verbatim>\<open>safe_extract\<close> over \<^verbatim>\<open>tar.getmembers()\<close>.\<close>

fun check_members :: "string \<Rightarrow> string \<Rightarrow> member list \<Rightarrow> error + unit" where
  "check_members wd path [] = Inr ()"
| "check_members wd path (m # ms) =
     (let member_path = path_join path (mname m)
      in if \<not> is_within_directory wd path member_path
         then Inl (PyException ''Attempted Path Traversal in Tar File'')
         else check_members wd path ms)"

definition safe_extract :: "filesystem \<Rightarrow> member list \<Rightarrow> string \<Rightarrow> (error + unit) \<times> filesystem" where
  "safe_extract fs tar path =
     (case check_members (cwd fs) path tar of
        Inl e \<Rightarrow> (Inl e, fs)
      | Inr _ \<Rightarrow> tar_extractall fs path tar)"

text \<open>\<^verbatim>\<open>tarfile.open(src_file, 'r')\<close> and \<^verbatim>\<open>zipfile.ZipFile(src_file, 'r')\<close>.\<close>

definition tar_open :: "filesystem \<Rightarrow> string \<Rightarrow> error + member list" where
  "tar_open fs p =
     (if p = [] then Inl ValueError
      else case lookup fs p of
             Inl e \<Rightarrow> Inl e
           | Inr (Dir _) \<Rightarrow> Inl IsADirectoryError
           | Inr (File c) \<Rightarrow>
               (case tar_probe c of
                  Inl e \<Rightarrow> Inl e
                | Inr None \<Rightarrow> Inl (PyException ''ReadError'')
                | Inr (Some ms) \<Rightarrow> Inr ms))"

definition zip_open :: "filesystem \<Rightarrow> string \<Rightarrow> error + string list" where
  "zip_open fs p =
     (case lookup fs p of
        Inl e \<Rightarrow> Inl e
      | Inr (Dir _) \<Rightarrow> Inl IsADirectoryError
      | Inr (File c) \<Rightarrow>
          (case zip_members c of
             None \<Rightarrow> Inl (PyException ''BadZipFile'')
           | Some ms \<Rightarrow> Inr ms))"

text \<open>
  The \<^verbatim>\<open>except FileNotFoundError: abort(400, 'File not found')\<close> around the
  whole body; any other exception passes through.
\<close>

definition except_FileNotFoundError :: "error \<Rightarrow> error" where
  "except_FileNotFoundError e =
     (if e = FileNotFoundError then HTTPAbort 400 (JStr ''File not found'') else e)"

definition uncompress_file :: "filesystem \<Rightarrow> string \<Rightarrow> (error + string) \<times> filesystem" where
  "uncompress_file fs src_file =
     (if \<not> isdir fs src_file then
        (let src_path = dirname src_file
         in case is_tarfile fs src_file of
              Inl e \<Rightarrow> (Inl (except_FileNotFoundError e), fs)
            | Inr True \<Rightarrow>
                (case tar_open fs src_file of
                   Inl e \<Rightarrow> (Inl (except_FileNotFoundError e), fs)
                 | Inr handle \<Rightarrow>
                     (case safe_extract fs handle src_path of
                        (Inl e, fs') \<Rightarrow> (Inl (except_FileNotFoundError e), fs')
                      | (Inr _, fs') \<Rightarrow>
                          (case get_extracted_path fs' src_path of
                             Inl e \<Rightarrow> (Inl (except_FileNotFoundError e), fs')
                           | Inr extracted_path \<Rightarrow> (Inr extracted_path, fs'))))
            | Inr False \<Rightarrow>
                if is_zipfile fs src_file then
                  (case zip_open fs src_file of
                     Inl e \<Rightarrow> (Inl (except_FileNotFoundError e), fs)
                   | Inr handle \<Rightarrow>
                       (case zip_extractall fs src_path handle of
                          (Inl e, fs') \<Rightarrow> (Inl (except_FileNotFoundError e), fs')
                        | (Inr _, fs') \<Rightarrow>
                            (case get_extracted_path fs' src_path of
                               Inl e \<Rightarrow> (Inl (except_FileNotFoundError e), fs')
                             | Inr extracted_path \<Rightarrow> (Inr extracted_path, fs'))))
                else (Inr src_file, fs))
      else (Inr src_file, fs))"

subsection \<open>The small helpers\<close>

definition validate_form :: "form \<Rightarrow> error + unit" where
  "validate_form form =
     (if \<not> validate_on_submit form then Inl (HTTPAbort 400 (form_errors form)) else Inr ())"

definition create_ticket :: "environment \<Rightarrow> string" where
  "create_ticket env = uuid4 env"

text \<open>\<^verbatim>\<open>mkdir\<close>: \<^verbatim>\<open>makedirs\<close> with every \<^verbatim>\<open>OSError\<close> swallowed.\<close>

definition mkdir :: "filesystem \<Rightarrow> string \<Rightarrow> filesystem" where
  "mkdir fs folder_path = snd (makedirs fs folder_path)"

definition get_tmp_dir :: "environment \<Rightarrow> filesystem \<Rightarrow> string \<Rightarrow> string \<times> filesystem" where
  "get_tmp_dir env fs namespace =
     (let tempdir = path_join (TEMPDIR env) namespace
      in (tempdir, mkdir fs tempdir))"

definition save_to_temp ::
  "environment \<Rightarrow> filesystem \<Rightarrow> form \<Rightarrow> string \<Rightarrow> string \<Rightarrow> (error + string) \<times> filesystem" where
  "save_to_temp env fs form tmp_dir ticket =
     (let src_path = path_join (path_join tmp_dir ''src'') ticket;
          fs1 = mkdir fs src_path;
          filename = secure_filename env (resource_data form);
          src_file = path_join src_path filename
      in case write_file fs1 src_file (resource_content form) of
           Inl e \<Rightarrow> (Inl e, fs1)
         | Inr fs2 \<Rightarrow> (Inr src_file, fs2))"

section \<open>The ticket store\<close>

text \<open>
  One row of the table \<^verbatim>\<open>tickets\<close>. Times are integers: \<open>row_requested_time\<close>
  in microseconds (the resolution of \<^verbatim>\<open>datetime\<close>), \<open>row_execution_time\<close> in
  milliseconds (the code rounds the seconds to three decimals). SQLite stores any
  scalar in any column, so \<open>row_success\<close> and \<open>row_comment\<close> hold the value that
  was bound.
\<close>

record ticket_row =
  row_requested_time :: int
  row_filesize :: nat
  row_status :: int
  row_success :: json
  row_execution_time :: "int option"
  row_comment :: json
  row_result :: "string option"

datatype sql_write = INSERT string | UPDATE string

text \<open>The table, and the statements that have written to it, oldest first.\<close>

record database =
  tickets :: "string \<rightharpoonup> ticket_row"
  writes :: "sql_write list"

text \<open>
  Modelled from the spec: the table's schema (the module \<^verbatim>\<open>db\<close> and its SQL are not
  among the sources). A ticket is unique; a row that
  \<^verbatim>\<open>INSERT INTO tickets (ticket, filesize)\<close> creates has its
  \<^verbatim>\<open>requested_time\<close> set at creation, status pending, and success, result,
  execution time and comment unset.
\<close>

definition insert_ticket :: "int \<Rightarrow> database \<Rightarrow> string \<Rightarrow> nat \<Rightarrow> error + database" where
  "insert_ticket now d ticket filesize =
     (if tickets d ticket \<noteq> None then Inl IntegrityError
      else Inr (d\<lparr>tickets := (tickets d)(ticket \<mapsto>
                    \<lparr>row_requested_time = now, row_filesize = filesize, row_status = 0,
                     row_success = JNull, row_execution_time = None, row_comment = JNull,
                     row_result = None\<rparr>),
                  writes := writes d @ [INSERT ticket]\<rparr>))"

text \<open>
  \<^verbatim>\<open>UPDATE tickets SET result=?, success=?, status=1, execution_time=?, comment=?
  WHERE ticket=?\<close>
\<close>

definition update_ticket ::
  "database \<Rightarrow> string option \<Rightarrow> json \<Rightarrow> int \<Rightarrow> json \<Rightarrow> string \<Rightarrow> database" where
  "update_ticket d filepath success execution_time comment ticket =
     d\<lparr>tickets :=
         (case tickets d ticket of
            None \<Rightarrow> tickets d
          | Some row \<Rightarrow>
              (tickets d)(ticket \<mapsto>
                 row\<lparr>row_result := filepath, row_success := success, row_status := 1,
                     row_execution_time := Some execution_time, row_comment := comment\<rparr>)),
       writes := writes d @ [UPDATE ticket]\<rparr>"

text \<open>The server's state: the files and the store.\<close>

record server =
  server_fs :: filesystem
  server_db :: database

section \<open>\<^verbatim>\<open>app.py\<close>\<close>

datatype JobType = KMEANS | DBSCAN | AGGLO | ISOFOREST | LOCALOUTLIER | SVM

text \<open>A Python value that a job hands to the completion callback.\<close>

datatype pyval = PVal json | PJob JobType

datatype body = Json json | Text string | Attachment string

datatype response = Response (body: body) (code: nat)

definition FILE_NOT_FOUND_MESSAGE :: string where
  "FILE_NOT_FOUND_MESSAGE = ''File not found''"

subsection \<open>\<^verbatim>\<open>enqueue\<close>\<close>

text \<open>
  The chain \<^verbatim>\<open>if job_type is JobType.KMEANS: ... elif ...\<close>. Its final
  \<^verbatim>\<open>else: result = None\<close> has no job type left to catch.
\<close>

definition algorithm :: "environment \<Rightarrow> JobType \<Rightarrow> form \<Rightarrow> string \<Rightarrow> string + json" where
  "algorithm env job_type form src_path =
     (case job_type of
        KMEANS \<Rightarrow> kmeams env form src_path
      | DBSCAN \<Rightarrow> dbscan env form src_path
      | AGGLO \<Rightarrow> agglomerative_clustering env form src_path
      | ISOFOREST \<Rightarrow> isolation_forest env form src_path
      | LOCALOUTLIER \<Rightarrow> local_outlier_factor env form src_path
      | SVM \<Rightarrow> one_class_svm env form src_path)"

text \<open>
  The job. \<open>now\<close> is the clock when the row is inserted and \<open>st_size\<close> the
  outcome of \<^verbatim>\<open>stat(src_path).st_size\<close>. The value returned is the tuple the
  job returns, as the list of its components; an exception outside the
  \<^verbatim>\<open>try\<close> leaves the job as \<open>Inl\<close>.
\<close>

definition enqueue ::
  "environment \<Rightarrow> int \<Rightarrow> error + nat \<Rightarrow> database \<Rightarrow> string \<Rightarrow> string \<Rightarrow> form \<Rightarrow> JobType
     \<Rightarrow> (error + pyval list) \<times> database" where
  "enqueue env now st_size d ticket src_path form job_type =
     (case st_size of
        Inl e \<Rightarrow> (Inl e, d)
      | Inr filesize \<Rightarrow>
          (case insert_ticket now d ticket filesize of
             Inl e \<Rightarrow> (Inl e, d)
           | Inr d' \<Rightarrow>
               (case algorithm env job_type form src_path of
                  Inl e \<Rightarrow>
                    (Inr [PVal (JStr ticket), PVal JNull, PVal (JInt 0), PVal (JStr e)], d')
                | Inr result \<Rightarrow>
                    (Inr [PVal (JStr ticket), PVal result, PJob job_type, PVal (JInt 1),
                          PVal JNull], d'))))"

subsection \<open>\<^verbatim>\<open>executor_callback\<close>\<close>

text \<open>
  \<^verbatim>\<open>round((now - time).total_seconds(), 3)\<close>. The difference of two
  \<^verbatim>\<open>datetime\<close>s is an exact number of microseconds; \<^verbatim>\<open>total_seconds()\<close>
  divides it by a million and yields the nearest double; \<^verbatim>\<open>round(x, 3)\<close>
  rounds the exact value of that double to three decimals, a tie to the even
  digit. \<open>round3\<close> follows these steps in integer arithmetic and gives the
  result in milliseconds.
\<close>

text \<open>\<^verbatim>\<open>int.bit_length()\<close> of a positive integer.\<close>

function bit_length :: "int \<Rightarrow> nat" where
  "bit_length n = (if n \<le> 0 then 0 else Suc (bit_length (n div 2)))"
  by pat_completeness auto
termination
  by (relation "measure nat") auto

declare bit_length.simps [simp del]

text \<open>The quotient \<open>n / d\<close> of a non-negative by a positive integer, rounded half to even.\<close>

definition round_half_even :: "int \<Rightarrow> int \<Rightarrow> int" where
  "round_half_even n d =
     (let q = n div d; r = n mod d
      in if 2 * r < d then q
         else if d < 2 * r then q + 1
         else if even q then q else q + 1)"

text \<open>
  The double nearest to \<open>a / b\<close> for positive integers, as its 53-bit mantissa
  \<open>m\<close> and the exponent \<open>k\<close>: the value is \<open>m\<close> divided by two to the
  power \<open>k\<close> (for a negative \<open>k\<close>, multiplied by two to the power \<open>-k\<close>).
\<close>

definition nearest_double :: "int \<Rightarrow> int \<Rightarrow> int \<times> int" where
  "nearest_double a b =
     (let k0 = 53 + int (bit_length b) - int (bit_length a);
          k = (if b * 2 ^ nat (- k0) * 2 ^ 53 \<le> a * 2 ^ nat k0 then k0 - 1 else k0)
      in (round_half_even (a * 2 ^ nat k) (b * 2 ^ nat (- k)), k))"

definition round3 :: "int \<Rightarrow> int" where
  "round3 us =
     (if us = 0 then 0
      else case nearest_double \<bar>us\<bar> 1000000 of
             (m, k) \<Rightarrow>
               (let ms = round_half_even (m * 2 ^ nat (- k) * 1000) (2 ^ nat k)
                in if 0 < us then ms else - ms))"

text \<open>What \<^verbatim>\<open>sqlite3\<close> accepts as a statement parameter.\<close>

definition sqlite_param :: "pyval \<Rightarrow> error + json" where
  "sqlite_param v =
     (case v of
        PJob _ \<Rightarrow> Inl InterfaceError
      | PVal (JList _) \<Rightarrow> Inl InterfaceError
      | PVal (JDict _) \<Rightarrow> Inl InterfaceError
      | PVal j \<Rightarrow> Inr j)"

text \<open>
  The body of the callback once the tuple is unpacked. \<open>today\<close> is
  \<^verbatim>\<open>datetime.now().strftime("%y%m%d")\<close>, \<open>now\<close> the clock at the update.
\<close>

definition callback_body ::
  "environment \<Rightarrow> string \<Rightarrow> int \<Rightarrow> pyval \<Rightarrow> pyval \<Rightarrow> pyval \<Rightarrow> pyval \<Rightarrow> server
     \<Rightarrow> (error + unit) \<times> server" where
  "callback_body env today now ticket result success comment srv =
     (case ticket of
        PVal (JStr t) \<Rightarrow>
          (let fs = server_fs srv;
               written =
                 (if result \<noteq> PVal JNull then
                    (let rel_path = path_join today t;
                         output_path = path_join (OUTPUT_DIR env) rel_path;
                         fs1 = mkdir fs output_path;
                         filepath = path_join (path_join (OUTPUT_DIR env) rel_path) ''result.json''
                     in case write_file fs1 filepath plain of
                          Inl e \<Rightarrow> (Inl e, fs1)
                        | Inr fs2 \<Rightarrow> (Inr (Some filepath), fs2))
                  else (Inr None, fs))
           in case written of
                (Inl e, fs') \<Rightarrow> (Inl e, srv\<lparr>server_fs := fs'\<rparr>)
              | (Inr filepath, fs') \<Rightarrow>
                  (case tickets (server_db srv) t of
                     None \<Rightarrow> (Inl TypeError, srv\<lparr>server_fs := fs'\<rparr>)
                   | Some db_result \<Rightarrow>
                       (let time = row_requested_time db_result;
                            execution_time = round3 (now - time)
                        in case sqlite_param success of
                             Inl e \<Rightarrow> (Inl e, srv\<lparr>server_fs := fs'\<rparr>)
                           | Inr success' \<Rightarrow>
                               (case sqlite_param comment of
                                  Inl e \<Rightarrow> (Inl e, srv\<lparr>server_fs := fs'\<rparr>)
                                | Inr comment' \<Rightarrow>
                                    (Inr (),
                                     srv\<lparr>server_fs := fs',
                                         server_db :=
                                           update_ticket (server_db srv) filepath success'
                                             execution_time comment' t\<rparr>)))))
      | _ \<Rightarrow> (Inl TypeError, srv))"

text \<open>
  \<^verbatim>\<open>ticket, result, job_type, success, comment = future.result()\<close>:
  \<^verbatim>\<open>future.result()\<close> raises what the job raised, and the unpacking raises
  \<^verbatim>\<open>ValueError\<close> unless the tuple has five components.
\<close>

definition executor_callback ::
  "environment \<Rightarrow> string \<Rightarrow> int \<Rightarrow> error + pyval list \<Rightarrow> server \<Rightarrow> (error + unit) \<times> server" where
  "executor_callback env today now future srv =
     (case future of
        Inl e \<Rightarrow> (Inl e, srv)
      | Inr [ticket, result, job_type, success, comment] \<Rightarrow>
          callback_body env today now ticket result success comment srv
      | Inr _ \<Rightarrow> (Inl ValueError, srv))"

text \<open>
  What the executor does with a submitted job on a worker thread: it runs the job,
  then calls the callback on the finished future.
\<close>

record job =
  job_ticket :: string
  job_src_path :: string
  job_form :: form
  job_type :: JobType

definition run_submitted ::
  "environment \<Rightarrow> int \<Rightarrow> error + nat \<Rightarrow> string \<Rightarrow> int \<Rightarrow> job \<Rightarrow> server
     \<Rightarrow> (error + unit) \<times> server" where
  "run_submitted env inserted st_size today finished j srv =
     (case enqueue env inserted st_size (server_db srv) (job_ticket j) (job_src_path j)
             (job_form j) (job_type j) of
        (future, d') \<Rightarrow> executor_callback env today finished future (srv\<lparr>server_db := d'\<rparr>))"

subsection \<open>\<^verbatim>\<open>health_check\<close>\<close>

text \<open>
  The two probes are taken by their outcome: \<open>writable\<close> is that of
  \<^verbatim>\<open>check_directory_writable(get_temp_dir())\<close>, \<open>selected\<close> that of
  \<^verbatim>\<open>db.get_db()\<close> and \<^verbatim>\<open>SELECT 1\<close>; \<open>Inl\<close> carries \<^verbatim>\<open>str(exc)\<close>.
\<close>

definition health_check :: "string + unit \<Rightarrow> string + unit \<Rightarrow> response" where
  "health_check writable selected =
     (case writable of
        Inl exc \<Rightarrow>
          Response (Json (JDict [(''status'', JStr ''FAILED''),
                                 (''reason'', JStr ''temp directory not writable''),
                                 (''detail'', JStr exc)])) 200
      | Inr _ \<Rightarrow>
          (case selected of
             Inl exc \<Rightarrow>
               Response (Json (JDict [(''status'', JStr ''FAILED''),
                                      (''reason'', JStr ''cannot connect to SQLite backend''),
                                      (''detail'', JStr exc)])) 200
           | Inr _ \<Rightarrow> Response (Json (JDict [(''status'', JStr ''OK'')])) 200))"

subsection \<open>The algorithm endpoints\<close>

text \<open>
  The twelve handlers \<^verbatim>\<open>k_means_file\<close>, \<^verbatim>\<open>k_means_path\<close>,
  \<^verbatim>\<open>dbscan_file\<close>, ... are two texts, one for an upload and one for a path,
  repeated with another algorithm and job type. A handler returns its response
  and, in the deferred case, the job it has submitted to the executor;
  \<^verbatim>\<open>enqueue.submit\<close> returns at once and the job runs later, on a worker. An
  exception of the algorithm in the prompt case is not caught by the handler.
\<close>

definition file_handler ::
  "JobType \<Rightarrow> environment \<Rightarrow> form \<Rightarrow> server \<Rightarrow> (error + response \<times> job option) \<times> server" where
  "file_handler jt env form srv =
     (case validate_form form of
        Inl e \<Rightarrow> (Inl e, srv)
      | Inr _ \<Rightarrow>
          (case get_tmp_dir env (server_fs srv) ''clustering_outliers'' of
             (tmp_dir, fs1) \<Rightarrow>
               (let ticket = create_ticket env
                in case save_to_temp env fs1 form tmp_dir ticket of
                     (Inl e, fs2) \<Rightarrow> (Inl e, srv\<lparr>server_fs := fs2\<rparr>)
                   | (Inr saved, fs2) \<Rightarrow>
                       (case uncompress_file fs2 saved of
                          (Inl e, fs3) \<Rightarrow> (Inl e, srv\<lparr>server_fs := fs3\<rparr>)
                        | (Inr src_file_path, fs3) \<Rightarrow>
                            (if response_data form = ''prompt'' then
                               (case algorithm env jt form src_file_path of
                                  Inl e \<Rightarrow> (Inl (PyException e), srv\<lparr>server_fs := fs3\<rparr>)
                                | Inr result \<Rightarrow>
                                    (Inr (Response (Json result) 200, None),
                                     srv\<lparr>server_fs := fs3\<rparr>))
                             else
                               (Inr (Response
                                       (Json (JDict [(''ticket'', JStr ticket),
                                                     (''endpoint'', JStr (''/resource/'' @ ticket)),
                                                     (''status'', JStr (''/status/'' @ ticket))]))
                                       202,
                                     Some \<lparr>job_ticket = ticket, job_src_path = src_file_path,
                                           job_form = form, job_type = jt\<rparr>),
                                srv\<lparr>server_fs := fs3\<rparr>))))))"

definition path_handler ::
  "JobType \<Rightarrow> environment \<Rightarrow> form \<Rightarrow> server \<Rightarrow> (error + response \<times> job option) \<times> server" where
  "path_handler jt env form srv =
     (case validate_form form of
        Inl e \<Rightarrow> (Inl e, srv)
      | Inr _ \<Rightarrow>
          (case uncompress_file (server_fs srv) (resource_data form) of
             (Inl e, fs1) \<Rightarrow> (Inl e, srv\<lparr>server_fs := fs1\<rparr>)
           | (Inr src_file_path, fs1) \<Rightarrow>
               (if \<not> exists fs1 src_file_path then
                  (Inl (HTTPAbort 400 (JStr FILE_NOT_FOUND_MESSAGE)), srv\<lparr>server_fs := fs1\<rparr>)
                else if response_data form = ''prompt'' then
                  (case algorithm env jt form src_file_path of
                     Inl e \<Rightarrow> (Inl (PyException e), srv\<lparr>server_fs := fs1\<rparr>)
                   | Inr result \<Rightarrow>
                       (Inr (Response (Json result) 200, None), srv\<lparr>server_fs := fs1\<rparr>))
                else
                  (let ticket = create_ticket env
                   in (Inr (Response
                              (Json (JDict [(''ticket'', JStr ticket),
                                            (''endpoint'', JStr (''/resource/'' @ ticket)),
                                            (''status'', JStr (''/status/'' @ ticket))]))
                              202,
                            Some \<lparr>job_ticket = ticket, job_src_path = src_file_path,
                                  job_form = form, job_type = jt\<rparr>),
                       srv\<lparr>server_fs := fs1\<rparr>)))))"

type_synonym handler =
  "environment \<Rightarrow> form \<Rightarrow> server \<Rightarrow> (error + response \<times> job option) \<times> server"

definition k_means_file :: handler where
  "k_means_file = file_handler KMEANS"

definition k_means_path :: handler where
  "k_means_path = path_handler KMEANS"

definition dbscan_file :: handler where
  "dbscan_file = file_handler DBSCAN"

definition dbscan_path :: handler where
  "dbscan_path = path_handler DBSCAN"

definition agglomerative_file :: handler where
  "agglomerative_file = file_handler AGGLO"

definition agglomerative_path :: handler where
  "agglomerative_path = path_handler AGGLO"

definition isolation_forest_file :: handler where
  "isolation_forest_file = file_handler ISOFOREST"

definition isolation_forest_path :: handler where
  "isolation_forest_path = path_handler ISOFOREST"

definition local_outlier_factor_file :: handler where
  "local_outlier_factor_file = file_handler LOCALOUTLIER"

definition local_outlier_factor_path :: handler where
  "local_outlier_factor_path = path_handler LOCALOUTLIER"

definition svm_file :: handler where
  "svm_file = file_handler SVM"

definition svm_path :: handler where
  "svm_path = path_handler SVM"

text \<open>
  The routes as the source gives them: each handler with the algorithm it calls
  in prompt mode and the job type it submits in deferred mode.
\<close>

definition file_endpoints ::
  "(handler \<times> (environment \<Rightarrow> form \<Rightarrow> string \<Rightarrow> string + json) \<times> JobType) list" where
  "file_endpoints =
     [(k_means_file, kmeams, KMEANS),
      (dbscan_file, dbscan, DBSCAN),
      (agglomerative_file, agglomerative_clustering, AGGLO),
      (isolation_forest_file, isolation_forest, ISOFOREST),
      (local_outlier_factor_file, local_outlier_factor, LOCALOUTLIER),
      (svm_file, one_class_svm, SVM)]"

definition path_endpoints ::
  "(handler \<times> (environment \<Rightarrow> form \<Rightarrow> string \<Rightarrow> string + json) \<times> JobType) list" where
  "path_endpoints =
     [(k_means_path, kmeams, KMEANS),
      (dbscan_path, dbscan, DBSCAN),
      (agglomerative_path, agglomerative_clustering, AGGLO),
      (isolation_forest_path, isolation_forest, ISOFOREST),
      (local_outlier_factor_path, local_outlier_factor, LOCALOUTLIER),
      (svm_path, one_class_svm, SVM)]"

subsection \<open>\<^verbatim>\<open>status\<close> and \<^verbatim>\<open>resource\<close>\<close>

text \<open>Python's \<^verbatim>\<open>bool(x)\<close>.\<close>

definition truthy :: "json \<Rightarrow> bool" where
  "truthy j =
     (case j of
        JNull \<Rightarrow> False
      | JBool b \<Rightarrow> b
      | JInt n \<Rightarrow> n \<noteq> 0
      | JStr x \<Rightarrow> x \<noteq> []
      | JList l \<Rightarrow> l \<noteq> []
      | JDict l \<Rightarrow> l \<noteq> [])"

text \<open>The route always binds \<open>ticket\<close>; the test for \<^verbatim>\<open>None\<close> is kept.\<close>

definition status :: "database \<Rightarrow> string option \<Rightarrow> response" where
  "status d ticket =
     (case ticket of
        None \<Rightarrow> Response (Text ''Ticket is missing.'') 400
      | Some t \<Rightarrow>
          (case tickets d t of
             Some results \<Rightarrow>
               (let success =
                      (if row_success results \<noteq> JNull then JBool (truthy (row_success results))
                       else JNull)
                in Response
                     (Json (JDict
                        [(''completed'', JBool (row_status results \<noteq> 0)),
                         (''success'', success),
                         (''requested'', JInt (row_requested_time results)),
                         (''execution_time(s)'',
                            (case row_execution_time results of
                               None \<Rightarrow> JNull
                             | Some ms \<Rightarrow> JInt ms)),
                         (''comment'', row_comment results)]))
                     200)
           | None \<Rightarrow> Response (Text ''Not found.'') 404))"

text \<open>
  \<^verbatim>\<open>fetchone()['result']\<close> subscripts what \<^verbatim>\<open>fetchone()\<close> returns, which is
  \<^verbatim>\<open>None\<close> when no row matches.
\<close>

definition resource :: "environment \<Rightarrow> server \<Rightarrow> string option \<Rightarrow> error + response" where
  "resource env srv ticket =
     (case ticket of
        None \<Rightarrow> Inr (Response (Text ''Resource ticket is missing.'') 400)
      | Some t \<Rightarrow>
          (case tickets (server_db srv) t of
             None \<Rightarrow> Inl TypeError
           | Some row \<Rightarrow>
               (case row_result row of
                  None \<Rightarrow> Inr (Response (Text ''Not found.'') 404)
                | Some rel_path \<Rightarrow>
                    (let file = path_join (OUTPUT_DIR env) rel_path
                     in if \<not> isfile (server_fs srv) file
                        then Inr (Response (Text ''Resource does not exist.'') 507)
                        else Inr (Response (Attachment file) 200)))))"

subsection \<open>The stores the code can produce\<close>

text \<open>
  The store starts empty; the only code that writes to it is the job and the
  completion callback.
\<close>

inductive reachable_db :: "database \<Rightarrow> bool" where
  empty: "reachable_db \<lparr>tickets = Map.empty, writes = []\<rparr>"
| enqueued:
    "reachable_db d \<Longrightarrow> enqueue env now st_size d ticket src_path form jt = (future, d')
       \<Longrightarrow> reachable_db d'"
| called_back:
    "reachable_db (server_db srv) \<Longrightarrow> executor_callback env today now future srv = (r, srv')
       \<Longrightarrow> reachable_db (server_db srv')"

section \<open>Example inputs\<close>

text \<open>A zip archive in \<open>/data\<close> with the single member \<open>../../evil\<close>.\<close>

definition zip_fs :: filesystem where
  "zip_fs =
     \<lparr>root = Dir [(''data'',
         Dir [(''in.zip'', File (Content (Inr None) (Some [''../../evil''])))])],
      cwd = ''/''\<rparr>"

text \<open>The same archive as a tar file.\<close>

definition tar_fs :: filesystem where
  "tar_fs =
     \<lparr>root = Dir [(''data'',
         Dir [(''in.tar'', File (Content (Inr (Some [Member ''../../evil'' False])) None))])],
      cwd = ''/''\<rparr>"

text \<open>A directory that holds a data file next to a subdirectory.\<close>

definition mixed_fs :: filesystem where
  "mixed_fs =
     \<lparr>root = Dir [(''data'',
         Dir [(''x.csv'', File plain), (''a'', Dir [(''y.csv'', File plain)])])],
      cwd = ''/''\<rparr>"




text \<open>
  An environment whose algorithms all return the same result, and one whose
  k-means raises.
\<close>

definition result0 :: json where
  "result0 = JDict [(''labels'', JList [JInt 0, JInt 1])]"

definition ok_env :: environment where
  "ok_env =
     \<lparr>TEMPDIR = ''/tmp'', OUTPUT_DIR = ''/out'', uuid4 = ''t1'', secure_filename = (\<lambda>n. n),
      kmeams = (\<lambda>_ _. Inr result0), dbscan = (\<lambda>_ _. Inr result0),
      agglomerative_clustering = (\<lambda>_ _. Inr result0), isolation_forest = (\<lambda>_ _. Inr result0),
      local_outlier_factor = (\<lambda>_ _. Inr result0), one_class_svm = (\<lambda>_ _. Inr result0)\<rparr>"

definition failing_env :: environment where
  "failing_env = ok_env\<lparr>kmeams := (\<lambda>_ _. Inl ''no such column'')\<rparr>"

text \<open>A path submission in deferred and in prompt mode, and an upload.\<close>

definition deferred_form :: form where
  "deferred_form =
     \<lparr>validate_on_submit = True, form_errors = JDict [], resource_data = ''/data/x.csv'',
      resource_content = plain, response_data = ''deferred''\<rparr>"

definition prompt_form :: form where
  "prompt_form = deferred_form\<lparr>response_data := ''prompt''\<rparr>"

definition upload_form :: form where
  "upload_form =
     \<lparr>validate_on_submit = True, form_errors = JDict [], resource_data = ''x.csv'',
      resource_content = plain, response_data = ''deferred''\<rparr>"

text \<open>A server with an empty store, and the job a deferred path submission submits.\<close>

definition empty_db :: database where
  "empty_db = \<lparr>tickets = Map.empty, writes = []\<rparr>"

definition srv0 :: server where
  "srv0 = \<lparr>server_fs = mixed_fs, server_db = empty_db\<rparr>"

definition job1 :: job where
  "job1 = \<lparr>job_ticket = ''t1'', job_src_path = ''/data/x.csv'', job_form = deferred_form,
           job_type = KMEANS\<rparr>"

text \<open>The store once that job has inserted its row, and the future the job leaves.\<close>

definition pending_db :: database where
  "pending_db = snd (enqueue ok_env 0 (Inr 10) empty_db ''t1'' ''/data/x.csv'' deferred_form KMEANS)"

definition finished_future :: "error + pyval list" where
  "finished_future =
     Inr [PVal (JStr ''t1''), PVal result0, PJob KMEANS, PVal (JInt 1), PVal JNull]"

definition pending_srv :: server where
  "pending_srv = srv0\<lparr>server_db := pending_db\<rparr>"

section \<open>The descent of \<^verbatim>\<open>get_extracted_path\<close>\<close>



section \<open>The store's invariant\<close>

text \<open>A row whose status is pending has no success value yet.\<close>

definition pending_unknown :: "database \<Rightarrow> bool" where
  "pending_unknown d =
     (\<forall>t row. tickets d t = Some row \<longrightarrow> row_status row = 0 \<longrightarrow> row_success row = JNull)"

section \<open>Properties of staging\<close>

lemma commonprefix_prefix: "commonprefix a b = a \<longleftrightarrow> prefix a b"
  by (induction a b rule: commonprefix.induct) auto

lemma is_within_directory_prefix:
  "is_within_directory wd d t \<longleftrightarrow> prefix (abspath wd d) (abspath wd t)"
  by (simp add: is_within_directory_def commonprefix_prefix)

lemma check_members_Inl:
  "(\<exists>m \<in> set ms. \<not> is_within_directory wd path (path_join path (mname m)))
   \<Longrightarrow> check_members wd path ms = Inl (PyException ''Attempted Path Traversal in Tar File'')"
  by (induction ms) (auto simp: Let_def)


lemma isdir_get_subdirectories: "isdir fs p \<Longrightarrow> \<exists>l. get_subdirectories fs p = Inr l"
  by (auto simp: isdir_def get_subdirectories_def scandir_def split: sum.splits node.splits)

lemma is_tarfile_not_isdir: "is_tarfile fs p = Inr b \<Longrightarrow> \<not> isdir fs p"
  by (auto simp: is_tarfile_def isdir_def split: sum.splits node.splits if_splits)

text \<open>
  C3, as stated, fails for a zip archive. The member \<open>../../evil\<close> of the archive
  \<open>/data/in.zip\<close>, joined to the destination \<open>/data\<close> and normalized, is
  \<open>/evil\<close>, which \<open>/data\<close> does not prefix; \<^verbatim>\<open>uncompress_file\<close> does not abort
  but returns the extraction directory.
\<close>

theorem zip_traversal_not_aborted:
  "zip_open zip_fs ''/data/in.zip'' = Inr [''../../evil'']
   \<and> \<not> prefix (abspath (cwd zip_fs) (dirname ''/data/in.zip''))
               (abspath (cwd zip_fs) (path_join (dirname ''/data/in.zip'') ''../../evil''))
   \<and> fst (uncompress_file zip_fs ''/data/in.zip'') = Inr ''/data''"
  by code_simp

text \<open>
  C3, amended: for every tar archive submitted for staging, if the path of any
  member, joined to the destination directory and made absolute and normal, does
  not have the destination directory's absolute path as a prefix of its
  characters, then \<^verbatim>\<open>uncompress_file\<close> aborts with the exception
  \<open>Attempted Path Traversal in Tar File\<close> and nothing has been extracted: the
  filesystem is the one it started with.
\<close>

theorem tar_traversal_aborts:
  assumes "is_tarfile fs src_file = Inr True"
    and "tar_open fs src_file = Inr ms"
    and "\<exists>m \<in> set ms. \<not> prefix (abspath (cwd fs) (dirname src_file))
                             (abspath (cwd fs) (path_join (dirname src_file) (mname m)))"
  shows "uncompress_file fs src_file =
           (Inl (PyException ''Attempted Path Traversal in Tar File''), fs)"
proof -
  have "check_members (cwd fs) (dirname src_file) ms =
          Inl (PyException ''Attempted Path Traversal in Tar File'')"
    using assms(3) by (intro check_members_Inl) (simp add: is_within_directory_prefix)
  then show ?thesis
    using assms(1,2) is_tarfile_not_isdir[OF assms(1)]
    by (simp add: uncompress_file_def safe_extract_def except_FileNotFoundError_def)
qed

text \<open>
  The amended C3 at the tar archive \<open>/data/in.tar\<close> with the member
  \<open>../../evil\<close>.
\<close>

theorem tar_traversal_aborts_witness:
  "is_tarfile tar_fs ''/data/in.tar'' = Inr True
   \<and> tar_open tar_fs ''/data/in.tar'' = Inr [Member ''../../evil'' False]
   \<and> \<not> prefix (abspath (cwd tar_fs) (dirname ''/data/in.tar''))
               (abspath (cwd tar_fs) (path_join (dirname ''/data/in.tar'') ''../../evil''))
   \<and> uncompress_file tar_fs ''/data/in.tar'' =
       (Inl (PyException ''Attempted Path Traversal in Tar File''), tar_fs)"
proof -
  have a: "is_tarfile tar_fs ''/data/in.tar'' = Inr True" by code_simp
  have b: "tar_open tar_fs ''/data/in.tar'' = Inr [Member ''../../evil'' False]" by code_simp
  have c: "\<not> prefix (abspath (cwd tar_fs) (dirname ''/data/in.tar''))
               (abspath (cwd tar_fs) (path_join (dirname ''/data/in.tar'') ''../../evil''))"
    by code_simp
  from c have c': "\<exists>m \<in> set [Member ''../../evil'' False].
      \<not> prefix (abspath (cwd tar_fs) (dirname ''/data/in.tar''))
               (abspath (cwd tar_fs) (path_join (dirname ''/data/in.tar'') (mname m)))"
    by simp
  show ?thesis using a b c tar_traversal_aborts[OF a b c'] by simp
qed













section \<open>Properties of the ticket store\<close>

lemma file_handler_db: "server_db (snd (file_handler jt env form srv)) = server_db srv"
  by (auto simp: file_handler_def Let_def split: sum.splits prod.splits)

lemma path_handler_db: "server_db (snd (path_handler jt env form srv)) = server_db srv"
  by (auto simp: path_handler_def Let_def split: sum.splits prod.splits)

lemma callback_body_Inl:
  "callback_body env today now ticket result success comment srv = (Inl e, srv') \<Longrightarrow>
     server_db srv' = server_db srv"
  unfolding callback_body_def Let_def
  by (auto split: pyval.splits json.splits sum.splits prod.splits option.splits if_splits)

lemma callback_body_ticket:
  "callback_body env today now ticket result success comment srv = (Inr u, srv') \<Longrightarrow>
     \<exists>t. ticket = PVal (JStr t)"
  unfolding callback_body_def
  by (auto split: pyval.splits json.splits)

lemma callback_body_Inr:
  "callback_body env today now (PVal (JStr t)) result success comment srv = (Inr u, srv') \<Longrightarrow>
     \<exists>row s c. tickets (server_db srv) t = Some row
        \<and> sqlite_param success = Inr s \<and> sqlite_param comment = Inr c
        \<and> server_db srv' =
            update_ticket (server_db srv)
              (if result \<noteq> PVal JNull
               then Some (path_join (path_join (OUTPUT_DIR env) (path_join today t)) ''result.json'')
               else None)
              s (round3 (now - row_requested_time row)) c t"
  unfolding callback_body_def Let_def
  by (auto split: sum.splits prod.splits option.splits if_splits)

lemma executor_callback_Inl:
  "executor_callback env today now future srv = (Inl e, srv') \<Longrightarrow>
     server_db srv' = server_db srv"
  unfolding executor_callback_def
  by (auto split: sum.splits list.splits dest: callback_body_Inl)

lemma executor_callback_Inr:
  assumes "executor_callback env today now future srv = (Inr u, srv')"
  shows "\<exists>t row s c result jt success comment.
        future = Inr [PVal (JStr t), result, jt, success, comment]
        \<and> tickets (server_db srv) t = Some row
        \<and> sqlite_param success = Inr s \<and> sqlite_param comment = Inr c
        \<and> server_db srv' =
            update_ticket (server_db srv)
              (if result \<noteq> PVal JNull
               then Some (path_join (path_join (OUTPUT_DIR env) (path_join today t)) ''result.json'')
               else None)
              s (round3 (now - row_requested_time row)) c t"
proof -
  from assms obtain ticket result jt success comment
    where f: "future = Inr [ticket, result, jt, success, comment]"
      and cb: "callback_body env today now ticket result success comment srv = (Inr u, srv')"
    unfolding executor_callback_def by (auto split: sum.splits list.splits)
  from callback_body_ticket[OF cb] obtain t where t: "ticket = PVal (JStr t)" by blast
  from callback_body_Inr[OF cb[unfolded t]] f t show ?thesis by blast
qed

lemma executor_callback_db:
  assumes "executor_callback env today now future srv = (r, srv')"
  shows "server_db srv' = server_db srv \<or>
     (\<exists>t fp s e c. server_db srv' = update_ticket (server_db srv) fp s e c t)"
proof (cases r)
  case (Inl e)
  with assms executor_callback_Inl show ?thesis by blast
next
  case (Inr u)
  with assms executor_callback_Inr[of env today now future srv u srv'] show ?thesis by blast
qed

lemma enqueue_db:
  "enqueue env now st d ticket src_path form jt = (future, d') \<Longrightarrow>
     d' = d \<or> (\<exists>n. insert_ticket now d ticket n = Inr d')"
  unfolding enqueue_def
  by (auto split: sum.splits)

lemma pending_unknown_insert:
  "pending_unknown d \<Longrightarrow> insert_ticket now d ticket n = Inr d' \<Longrightarrow> pending_unknown d'"
  by (auto simp: pending_unknown_def insert_ticket_def split: if_splits)

lemma pending_unknown_update:
  "pending_unknown d \<Longrightarrow> pending_unknown (update_ticket d fp s e c t)"
  by (auto simp: pending_unknown_def update_ticket_def split: option.splits if_splits)

lemma reachable_pending_unknown: "reachable_db d \<Longrightarrow> pending_unknown d"
proof (induction rule: reachable_db.induct)
  case empty
  show ?case by (simp add: pending_unknown_def)
next
  case (enqueued d env now st_size ticket src_path form jt future d')
  from enqueue_db[OF enqueued.hyps(2)] enqueued.IH show ?case
    by (auto intro: pending_unknown_insert)
next
  case (called_back srv env today now future r srv')
  from executor_callback_db[OF called_back.hyps(2)] called_back.IH show ?case
    by (auto intro: pending_unknown_update)
qed

lemma round_half_even_nonneg: "0 \<le> n \<Longrightarrow> 0 < d \<Longrightarrow> 0 \<le> round_half_even n d"
  by (auto simp: round_half_even_def Let_def pos_imp_zdiv_nonneg_iff)

lemma round3_nonneg: "0 \<le> us \<Longrightarrow> 0 \<le> round3 us"
proof (cases "us = 0")
  case True
  then show ?thesis by (simp add: round3_def)
next
  case False
  assume "0 \<le> us"
  with False have pos: "0 < us" by simp
  obtain m k where mk: "nearest_double \<bar>us\<bar> 1000000 = (m, k)" by (cases "nearest_double \<bar>us\<bar> 1000000")
  then have "0 \<le> m"
    using pos by (auto simp: nearest_double_def Let_def intro!: round_half_even_nonneg)
  then have "0 \<le> round_half_even (m * 2 ^ nat (- k) * 1000) (2 ^ nat k)"
    by (intro round_half_even_nonneg) simp_all
  then show ?thesis using pos mk by (simp add: round3_def Let_def)
qed

lemma enqueue_fresh:
  assumes "tickets d ticket = None"
  shows "snd (enqueue env now (Inr filesize) d ticket src_path form jt) =
           d\<lparr>tickets := (tickets d)(ticket \<mapsto>
                 \<lparr>row_requested_time = now, row_filesize = filesize, row_status = 0,
                  row_success = JNull, row_execution_time = None, row_comment = JNull,
                  row_result = None\<rparr>),
              writes := writes d @ [INSERT ticket]\<rparr>"
  using assms by (simp add: enqueue_def insert_ticket_def split: sum.splits)

lemma enqueue_future:
  assumes "tickets d ticket = None"
  shows "\<exists>rest. fst (enqueue env now (Inr filesize) d ticket src_path form jt) =
           Inr (PVal (JStr ticket) # rest)"
  using assms by (simp add: enqueue_def insert_ticket_def split: sum.splits)

lemma enqueue_taken:
  assumes "tickets d ticket \<noteq> None"
  shows "enqueue env now (Inr filesize) d ticket src_path form jt = (Inl IntegrityError, d)"
  using assms by (simp add: enqueue_def insert_ticket_def)

lemma enqueue_Inl:
  "fst (enqueue env now st d ticket src_path form jt) = Inl e \<Longrightarrow>
     snd (enqueue env now st d ticket src_path form jt) = d"
  by (auto simp: enqueue_def insert_ticket_def split: sum.splits if_splits)

lemma enqueue_Inr:
  "fst (enqueue env now st d ticket src_path form jt) = Inr future \<Longrightarrow>
     tickets d ticket = None \<and> (\<exists>rest. future = PVal (JStr ticket) # rest)"
  by (auto simp: enqueue_def insert_ticket_def split: sum.splits if_splits)

lemma enqueue_keeps_rows:
  "tickets d t = Some row \<Longrightarrow>
     tickets (snd (enqueue env now st d ticket src_path form jt)) t = Some row"
  by (auto simp: enqueue_def insert_ticket_def split: sum.splits if_splits)

lemma update_ticket_other:
  "t' \<noteq> t \<Longrightarrow> tickets (update_ticket d fp s e c t') t = tickets d t"
  by (simp add: update_ticket_def split: option.splits)

lemma executor_callback_other:
  assumes "executor_callback env today now (Inr (PVal (JStr t') # rest)) srv = (r, srv')"
    and "t' \<noteq> t"
  shows "tickets (server_db srv') t = tickets (server_db srv) t"
proof (cases r)
  case (Inl e)
  with assms(1) executor_callback_Inl show ?thesis by metis
next
  case (Inr u)
  with assms(1) have "executor_callback env today now (Inr (PVal (JStr t') # rest)) srv = (Inr u, srv')"
    by simp
  from executor_callback_Inr[OF this]
  have "\<exists>fp s e c. server_db srv' = update_ticket (server_db srv) fp s e c t'"
    by fastforce
  then show ?thesis using assms(2) update_ticket_other by metis
qed

lemma run_submitted_keeps_rows:
  assumes "tickets (server_db srv) t = Some row"
  shows "tickets (server_db (snd (run_submitted env inserted st today finished j srv))) t = Some row"
proof -
  let ?e = "enqueue env inserted st (server_db srv) (job_ticket j) (job_src_path j)
              (job_form j) (job_type j)"
  let ?srv1 = "srv\<lparr>server_db := snd ?e\<rparr>"
  have rs: "run_submitted env inserted st today finished j srv =
              executor_callback env today finished (fst ?e) ?srv1"
    by (simp add: run_submitted_def case_prod_unfold)
  have k: "tickets (server_db ?srv1) t = Some row"
    using enqueue_keeps_rows[OF assms] by simp
  obtain r srv' where cb: "executor_callback env today finished (fst ?e) ?srv1 = (r, srv')"
    by (cases "executor_callback env today finished (fst ?e) ?srv1")
  show ?thesis
  proof (cases "fst ?e")
    case (Inl e)
    with cb have "srv' = ?srv1" by (simp add: executor_callback_def)
    then show ?thesis using rs cb k by simp
  next
    case (Inr future)
    from enqueue_Inr[OF Inr] obtain rest where
      fresh: "tickets (server_db srv) (job_ticket j) = None"
      and f: "future = PVal (JStr (job_ticket j)) # rest" by blast
    from fresh assms have ne: "job_ticket j \<noteq> t" by auto
    from cb Inr f have "executor_callback env today finished
        (Inr (PVal (JStr (job_ticket j)) # rest)) ?srv1 = (r, srv')" by simp
    from executor_callback_other[OF this ne] show ?thesis using rs cb k by simp
  qed
qed

text \<open>
  C1 at a failing input: a deferred k-means job whose algorithm raises an
  exception with the text \<open>no such column\<close>. The job catches the exception and
  returns a tuple of four components; the completion callback unpacks five, so it
  raises \<^verbatim>\<open>ValueError\<close> before it reaches the store. The ticket's row stays as
  the job inserted it, pending and without success or comment, and the store has
  seen the \<^verbatim>\<open>INSERT\<close> only.
\<close>

theorem failed_job_not_recorded:
  "fst (enqueue failing_env 0 (Inr 10) empty_db ''t1'' ''/data/x.csv'' deferred_form KMEANS) =
     Inr [PVal (JStr ''t1''), PVal JNull, PVal (JInt 0), PVal (JStr ''no such column'')]
   \<and> fst (run_submitted failing_env 0 (Inr 10) ''261104'' 5000000 job1 srv0) = Inl ValueError
   \<and> tickets (server_db (snd (run_submitted failing_env 0 (Inr 10) ''261104'' 5000000 job1 srv0)))
        ''t1'' =
       Some \<lparr>row_requested_time = 0, row_filesize = 10, row_status = 0, row_success = JNull,
             row_execution_time = None, row_comment = JNull, row_result = None\<rparr>
   \<and> writes (server_db (snd (run_submitted failing_env 0 (Inr 10) ''261104'' 5000000 job1 srv0))) =
       [INSERT ''t1'']"
  by code_simp

text \<open>
  C2 at a failing input: a ticket that is absent from the store.
  \<^verbatim>\<open>resource\<close> raises \<^verbatim>\<open>TypeError\<close> (an internal server error) where C2
  and the handler's own documentation say 404.
\<close>

theorem resource_unknown_ticket_raises:
  "tickets (server_db srv0) ''t1'' = None
   \<and> resource ok_env srv0 (Some ''t1'') = Inl TypeError"
  by code_simp

text \<open>
  The rest of C2 holds: for a ticket that is present, a null result path gives
  404, a recorded path without its file gives 507, and otherwise the file is sent.
\<close>

lemma resource_known_ticket:
  assumes "tickets (server_db srv) t = Some row"
  shows "resource env srv (Some t) =
           (case row_result row of
              None \<Rightarrow> Inr (Response (Text ''Not found.'') 404)
            | Some rel_path \<Rightarrow>
                if isfile (server_fs srv) (path_join (OUTPUT_DIR env) rel_path)
                then Inr (Response (Attachment (path_join (OUTPUT_DIR env) rel_path)) 200)
                else Inr (Response (Text ''Resource does not exist.'') 507))"
  using assms by (simp add: resource_def Let_def split: option.splits)

text \<open>
  C4, as stated, fails: no request handler creates a ticket row. A prompt upload
  is answered with 200 and the store has never been written to; a deferred upload
  is answered with 202 and, when the handler returns, the store still has no row
  for the ticket it has handed out.
\<close>

theorem request_handler_creates_no_ticket:
  "fst (k_means_file ok_env (upload_form\<lparr>response_data := ''prompt''\<rparr>) srv0) =
     Inr (Response (Json result0) 200, None)
   \<and> writes (server_db (snd (k_means_file ok_env (upload_form\<lparr>response_data := ''prompt''\<rparr>) srv0)))
       = []
   \<and> fst (k_means_file ok_env upload_form srv0) =
       Inr (Response
              (Json (JDict [(''ticket'', JStr ''t1''), (''endpoint'', JStr ''/resource/t1''),
                            (''status'', JStr ''/status/t1'')]))
              202,
            Some \<lparr>job_ticket = ''t1'', job_src_path = ''/tmp/clustering_outliers/src/t1/x.csv'',
                  job_form = upload_form, job_type = KMEANS\<rparr>)
   \<and> tickets (server_db (snd (k_means_file ok_env upload_form srv0))) ''t1'' = None
   \<and> writes (server_db (snd (k_means_file ok_env upload_form srv0))) = []"
  by code_simp

text \<open>
  C4, amended: the request handlers never write to the ticket store, so a prompt
  request leaves no ticket row. For a deferred request the row is created by the
  job itself, as its first access to the store and before the delegated algorithm
  runs: a job with a new ticket inserts the pending row whether the algorithm
  then returns or raises, and a job whose insert fails, or which cannot read the
  size of its source file before the insert, does not run the algorithm at all and
  leaves the store as it is. For every job that runs to completion (the completion handler returns
  normally) the store has received exactly two writes, the job's \<^verbatim>\<open>INSERT\<close>
  followed by one \<^verbatim>\<open>UPDATE\<close> by the completion handler; that update sets the
  status to completed, and no other ticket's row has changed. A row that exists,
  pending or completed, is not changed by any job that runs afterwards.
\<close>

theorem ticket_lifecycle:
  "server_db (snd (file_handler jt env form srv)) = server_db srv
   \<and> server_db (snd (path_handler jt env form srv)) = server_db srv
   \<and> (tickets d ticket = None \<longrightarrow>
        snd (enqueue env inserted (Inr filesize) d ticket src_path form jt) =
          d\<lparr>tickets := (tickets d)(ticket \<mapsto>
               \<lparr>row_requested_time = inserted, row_filesize = filesize, row_status = 0,
                row_success = JNull, row_execution_time = None, row_comment = JNull,
                row_result = None\<rparr>),
            writes := writes d @ [INSERT ticket]\<rparr>)
   \<and> (tickets d ticket \<noteq> None \<longrightarrow>
        enqueue env inserted (Inr filesize) d ticket src_path form jt = (Inl IntegrityError, d))
   \<and> enqueue env inserted (Inl e) d ticket src_path form jt = (Inl e, d)
   \<and> (tickets (server_db srv) (job_ticket j) = None
        \<and> run_submitted env inserted (Inr filesize) today finished j srv = (Inr (), srv') \<longrightarrow>
          writes (server_db srv') =
            writes (server_db srv) @ [INSERT (job_ticket j), UPDATE (job_ticket j)]
          \<and> (\<exists>row. tickets (server_db srv') (job_ticket j) = Some row \<and> row_status row = 1
                 \<and> row_requested_time row = inserted)
          \<and> (\<forall>t. t \<noteq> job_ticket j \<longrightarrow> tickets (server_db srv') t = tickets (server_db srv) t))
   \<and> (tickets (server_db srv) t = Some row \<longrightarrow>
        tickets (server_db (snd (run_submitted env inserted st today finished j srv))) t = Some row)"
proof -
  have completed:
    "writes (server_db srv') =
            writes (server_db srv) @ [INSERT (job_ticket j), UPDATE (job_ticket j)]
          \<and> (\<exists>row. tickets (server_db srv') (job_ticket j) = Some row \<and> row_status row = 1
                 \<and> row_requested_time row = inserted)
          \<and> (\<forall>t. t \<noteq> job_ticket j \<longrightarrow> tickets (server_db srv') t = tickets (server_db srv) t)"
    if fresh: "tickets (server_db srv) (job_ticket j) = None"
      and run: "run_submitted env inserted (Inr filesize) today finished j srv = (Inr (), srv')"
  proof -
    let ?t = "job_ticket j"
    let ?e = "enqueue env inserted (Inr filesize) (server_db srv) ?t (job_src_path j)
                (job_form j) (job_type j)"
    let ?d1 = "(server_db srv)\<lparr>tickets := (tickets (server_db srv))(?t \<mapsto>
                 \<lparr>row_requested_time = inserted, row_filesize = filesize, row_status = 0,
                  row_success = JNull, row_execution_time = None, row_comment = JNull,
                  row_result = None\<rparr>),
              writes := writes (server_db srv) @ [INSERT ?t]\<rparr>"
    have d1: "snd ?e = ?d1" by (rule enqueue_fresh[OF fresh])
    from enqueue_future[OF fresh] obtain rest where f: "fst ?e = Inr (PVal (JStr ?t) # rest)"
      by blast
    from run have cb: "executor_callback env today finished (fst ?e) (srv\<lparr>server_db := ?d1\<rparr>)
        = (Inr (), srv')"
      unfolding run_submitted_def using d1 by (simp add: case_prod_unfold)
    have "\<exists>fp s e c. server_db srv' = update_ticket ?d1 fp s e c ?t"
      using executor_callback_Inr[OF cb] f by fastforce
    then obtain fp s e c where upd: "server_db srv' = update_ticket ?d1 fp s e c ?t"
      by blast
    have w: "writes (server_db srv') = writes (server_db srv) @ [INSERT ?t, UPDATE ?t]"
      unfolding upd by (simp add: update_ticket_def)
    have r: "\<exists>row. tickets (server_db srv') ?t = Some row \<and> row_status row = 1
                 \<and> row_requested_time row = inserted"
      unfolding upd by (simp add: update_ticket_def)
    have o: "\<forall>t. t \<noteq> ?t \<longrightarrow> tickets (server_db srv') t = tickets (server_db srv) t"
      unfolding upd by (simp add: update_ticket_def)
    show ?thesis using w r o by blast
  qed
  have c1: "server_db (snd (file_handler jt env form srv)) = server_db srv"
    by (rule file_handler_db)
  have c2: "server_db (snd (path_handler jt env form srv)) = server_db srv"
    by (rule path_handler_db)
  have c3: "tickets d ticket = None \<longrightarrow>
        snd (enqueue env inserted (Inr filesize) d ticket src_path form jt) =
          d\<lparr>tickets := (tickets d)(ticket \<mapsto>
               \<lparr>row_requested_time = inserted, row_filesize = filesize, row_status = 0,
                row_success = JNull, row_execution_time = None, row_comment = JNull,
                row_result = None\<rparr>),
            writes := writes d @ [INSERT ticket]\<rparr>"
    using enqueue_fresh by blast
  have c4: "tickets d ticket \<noteq> None \<longrightarrow>
        enqueue env inserted (Inr filesize) d ticket src_path form jt = (Inl IntegrityError, d)"
    using enqueue_taken by blast
  have c6: "tickets (server_db srv) t = Some row \<longrightarrow>
        tickets (server_db (snd (run_submitted env inserted st today finished j srv))) t = Some row"
    using run_submitted_keeps_rows by blast
  have c5: "enqueue env inserted (Inl e) d ticket src_path form jt = (Inl e, d)"
    by (simp add: enqueue_def)
  from c1 c2 c3 c4 c5 completed c6 show ?thesis by blast
qed

text \<open>
  The amended C4 at a deferred k-means job on the empty store. The job inserts
  the pending row also when its algorithm raises; with an algorithm that returns,
  the job completes and the store has seen the \<^verbatim>\<open>INSERT\<close> and one
  \<^verbatim>\<open>UPDATE\<close>; the same job submitted once more fails at its insert and
  leaves the completed row as it is.
\<close>

theorem ticket_lifecycle_witness:
  "tickets (server_db srv0) (job_ticket job1) = None
   \<and> writes (snd (enqueue failing_env 0 (Inr 10) (server_db srv0) (job_ticket job1)
                     ''/data/x.csv'' deferred_form KMEANS)) = [INSERT ''t1'']
   \<and> fst (run_submitted ok_env 0 (Inr 10) ''261104'' 5000000 job1 srv0) = Inr ()
   \<and> writes (server_db (snd (run_submitted ok_env 0 (Inr 10) ''261104'' 5000000 job1 srv0))) =
       writes (server_db srv0) @ [INSERT (job_ticket job1), UPDATE (job_ticket job1)]
   \<and> (\<exists>row. tickets (server_db (snd (run_submitted ok_env 0 (Inr 10) ''261104'' 5000000 job1 srv0)))
               (job_ticket job1) = Some row \<and> row_status row = 1)
   \<and> enqueue ok_env 7000000 (Inr 10)
        (server_db (snd (run_submitted ok_env 0 (Inr 10) ''261104'' 5000000 job1 srv0)))
        ''t1'' ''/data/x.csv'' deferred_form KMEANS =
       (Inl IntegrityError,
        server_db (snd (run_submitted ok_env 0 (Inr 10) ''261104'' 5000000 job1 srv0)))
   \<and> tickets (server_db (snd (run_submitted ok_env 7000000 (Inr 10) ''261104'' 9000000 job1
        (snd (run_submitted ok_env 0 (Inr 10) ''261104'' 5000000 job1 srv0))))) ''t1'' =
       tickets (server_db (snd (run_submitted ok_env 0 (Inr 10) ''261104'' 5000000 job1 srv0))) ''t1''"
proof -
  let ?srv1 = "snd (run_submitted ok_env 0 (Inr 10) ''261104'' 5000000 job1 srv0)"
  have a: "tickets (server_db srv0) (job_ticket job1) = None" by code_simp
  have c: "fst (run_submitted ok_env 0 (Inr 10) ''261104'' 5000000 job1 srv0) = Inr ()"
    by code_simp
  have d: "run_submitted ok_env 0 (Inr 10) ''261104'' 5000000 job1 srv0 = (Inr (), ?srv1)"
    using c by (metis prod.collapse)
  have t: "job_ticket job1 = ''t1''" by code_simp
  note first = ticket_lifecycle[where env = failing_env and form = deferred_form and jt = KMEANS
      and srv = srv0 and d = "server_db srv0" and ticket = "job_ticket job1" and j = job1
      and inserted = 0 and filesize = 10 and src_path = "''/data/x.csv''"
      and today = "''261104''" and finished = 5000000 and srv' = ?srv1 and t = "''t1''"
      and st = "Inr 10" and row = undefined]
  from first a have "snd (enqueue failing_env 0 (Inr 10) (server_db srv0) (job_ticket job1)
                     ''/data/x.csv'' deferred_form KMEANS) =
          (server_db srv0)\<lparr>tickets := (tickets (server_db srv0))(job_ticket job1 \<mapsto>
               \<lparr>row_requested_time = 0, row_filesize = 10, row_status = 0,
                row_success = JNull, row_execution_time = None, row_comment = JNull,
                row_result = None\<rparr>),
            writes := writes (server_db srv0) @ [INSERT (job_ticket job1)]\<rparr>"
    by blast
  then have w1: "writes (snd (enqueue failing_env 0 (Inr 10) (server_db srv0) (job_ticket job1)
                     ''/data/x.csv'' deferred_form KMEANS)) = [INSERT ''t1'']"
    using t by (simp add: srv0_def empty_db_def)
  note run = ticket_lifecycle[where env = ok_env and form = deferred_form and jt = KMEANS
      and srv = srv0 and d = "server_db srv0" and ticket = "job_ticket job1" and j = job1
      and inserted = 0 and filesize = 10 and src_path = "''/data/x.csv''"
      and today = "''261104''" and finished = 5000000 and srv' = ?srv1 and t = "''t1''"
      and st = "Inr 10" and row = undefined]
  from run a d have w2: "writes (server_db ?srv1) =
       writes (server_db srv0) @ [INSERT (job_ticket job1), UPDATE (job_ticket job1)]"
    and ex: "\<exists>row. tickets (server_db ?srv1) (job_ticket job1) = Some row \<and> row_status row = 1"
    by blast+
  from ex t obtain row where row: "tickets (server_db ?srv1) ''t1'' = Some row"
    "row_status row = 1"
    by auto
  note again = ticket_lifecycle[where env = ok_env and form = deferred_form and jt = KMEANS
      and srv = ?srv1 and d = "server_db ?srv1" and ticket = "''t1''" and inserted = 7000000
      and filesize = 10 and src_path = "''/data/x.csv''" and today = "''261104''"
      and finished = 9000000 and j = job1 and t = "''t1''" and row = row and st = "Inr 10"
      and srv' = undefined]
  from again row have
    taken: "enqueue ok_env 7000000 (Inr 10) (server_db ?srv1) ''t1'' ''/data/x.csv''
              deferred_form KMEANS = (Inl IntegrityError, server_db ?srv1)"
    and kept: "tickets (server_db (snd (run_submitted ok_env 7000000 (Inr 10) ''261104'' 9000000
                 job1 ?srv1))) ''t1'' = Some row"
    by blast+
  show ?thesis using a w1 c w2 row taken kept t by auto
qed

text \<open>
  C6, as stated, fails where the clock has been set back between the insertion of
  the row and the completion: the job below is inserted at 2000000 microseconds
  and completes at 1998500. The completion handler records the ticket as
  completed with an execution time of -2 milliseconds.
\<close>

theorem execution_time_negative:
  "fst (run_submitted ok_env 2000000 (Inr 10) ''261104'' 1998500 job1 srv0) = Inr ()
   \<and> map_option row_status
        (tickets (server_db (snd (run_submitted ok_env 2000000 (Inr 10) ''261104'' 1998500 job1
           srv0))) ''t1'') = Some 1
   \<and> map_option row_execution_time
        (tickets (server_db (snd (run_submitted ok_env 2000000 (Inr 10) ''261104'' 1998500 job1
           srv0))) ''t1'') = Some (Some (- 2))"
  by code_simp

text \<open>
  C6, amended: for every completed job, that is, whenever the completion handler
  returns normally for a ticket, the handler has computed the ticket's execution
  time once, in the one \<^verbatim>\<open>UPDATE\<close> it performs, as the elapsed time from the
  row's requested time to the completion time, rounded to three decimals of a
  second as Python rounds; the recorded value is not negative whenever the
  completion time is not earlier than the requested time (the code has no guard
  for a clock that was set back).
\<close>

theorem execution_time_recorded:
  assumes "executor_callback env today now (Inr [PVal (JStr t), result, jt, success, comment]) srv
             = (Inr (), srv')"
    and "tickets (server_db srv) t = Some row"
  shows "\<exists>row'. tickets (server_db srv') t = Some row'
           \<and> row_status row' = 1
           \<and> row_execution_time row' = Some (round3 (now - row_requested_time row))
           \<and> (row_requested_time row \<le> now \<longrightarrow> 0 \<le> round3 (now - row_requested_time row))
           \<and> writes (server_db srv') = writes (server_db srv) @ [UPDATE t]"
proof -
  from executor_callback_Inr[OF assms(1)] assms(2)
  have "\<exists>fp s c. server_db srv' =
          update_ticket (server_db srv) fp s (round3 (now - row_requested_time row)) c t"
    by fastforce
  then obtain fp s c where upd: "server_db srv' =
          update_ticket (server_db srv) fp s (round3 (now - row_requested_time row)) c t"
    by blast
  have "row_requested_time row \<le> now \<longrightarrow> 0 \<le> round3 (now - row_requested_time row)"
    by (simp add: round3_nonneg)
  then show ?thesis
    unfolding upd using assms(2) by (simp add: update_ticket_def)
qed

text \<open>
  The amended C6 at the pending ticket \<open>t1\<close>, requested at 0: completed
  1234567 microseconds later, the execution time recorded is 1235 milliseconds;
  completed 2500 microseconds later it is 3 milliseconds, as Python's
  \<^verbatim>\<open>round(0.0025, 3)\<close> is \<open>0.003\<close>.
\<close>

theorem execution_time_recorded_witness:
  "fst (executor_callback ok_env ''261104'' 1234567 finished_future pending_srv) = Inr ()
   \<and> map_option row_requested_time (tickets (server_db pending_srv) ''t1'') = Some 0
   \<and> map_option row_execution_time
        (tickets (server_db (snd (executor_callback ok_env ''261104'' 1234567 finished_future
           pending_srv))) ''t1'') = Some (Some 1235)
   \<and> writes (server_db (snd (executor_callback ok_env ''261104'' 1234567 finished_future
           pending_srv))) = [INSERT ''t1'', UPDATE ''t1'']
   \<and> map_option row_execution_time
        (tickets (server_db (snd (executor_callback ok_env ''261104'' 2500 finished_future
           pending_srv))) ''t1'') = Some (Some 3)"
proof -
  let ?row = "\<lparr>row_requested_time = 0, row_filesize = 10, row_status = 0, row_success = JNull,
     row_execution_time = None, row_comment = JNull, row_result = None\<rparr>"
  have b: "tickets (server_db pending_srv) ''t1'' = Some ?row" by code_simp
  have w: "writes (server_db pending_srv) = [INSERT ''t1'']" by code_simp
  have a: "fst (executor_callback ok_env ''261104'' 1234567 finished_future pending_srv) = Inr ()"
    by code_simp
  have r: "round3 (1234567 - 0) = 1235" by code_simp
  have d: "executor_callback ok_env ''261104'' 1234567
             (Inr [PVal (JStr ''t1''), PVal result0, PJob KMEANS, PVal (JInt 1), PVal JNull])
             pending_srv =
           (Inr (), snd (executor_callback ok_env ''261104'' 1234567 finished_future pending_srv))"
    using a unfolding finished_future_def by (metis prod.collapse)
  have a2: "fst (executor_callback ok_env ''261104'' 2500 finished_future pending_srv) = Inr ()"
    by code_simp
  have r2: "round3 (2500 - 0) = 3" by code_simp
  have d2: "executor_callback ok_env ''261104'' 2500
             (Inr [PVal (JStr ''t1''), PVal result0, PJob KMEANS, PVal (JInt 1), PVal JNull])
             pending_srv =
           (Inr (), snd (executor_callback ok_env ''261104'' 2500 finished_future pending_srv))"
    using a2 unfolding finished_future_def by (metis prod.collapse)
  show ?thesis
    using a b w r r2 execution_time_recorded[OF d b] execution_time_recorded[OF d2 b] by auto
qed

text \<open>
  C7: for every ticket present in the store, \<^verbatim>\<open>status\<close> answers 200 with an
  object of the five fields completed, success, requested, execution time (under
  the key \<open>execution_time(s)\<close>) and comment, and success is null while the
  ticket's status is pending; for every ticket absent from the store it answers
  404. The stores are those the job and the completion handler can produce. The
  success reported is null where the row's success is null and otherwise the
  truth value of the row's success.
\<close>

theorem status_reports:
  assumes "reachable_db d"
  shows "case tickets d t of
           None \<Rightarrow> status d (Some t) = Response (Text ''Not found.'') 404
         | Some row \<Rightarrow>
             (\<exists>success.
                status d (Some t) =
                  Response
                    (Json (JDict
                       [(''completed'', JBool (row_status row \<noteq> 0)),
                        (''success'', success),
                        (''requested'', JInt (row_requested_time row)),
                        (''execution_time(s)'',
                           (case row_execution_time row of None \<Rightarrow> JNull | Some ms \<Rightarrow> JInt ms)),
                        (''comment'', row_comment row)]))
                    200
                \<and> (row_status row = 0 \<longrightarrow> success = JNull)
                \<and> (row_success row = JNull \<longrightarrow> success = JNull)
                \<and> (row_success row \<noteq> JNull \<longrightarrow> success = JBool (truthy (row_success row))))"
  using reachable_pending_unknown[OF assms]
  by (auto simp: status_def pending_unknown_def Let_def split: option.splits)

text \<open>
  C7 at the store that holds the pending ticket \<open>t1\<close> only: the status of
  \<open>t1\<close> and of the unknown \<open>t2\<close>.
\<close>

theorem status_reports_witness:
  "reachable_db pending_db
   \<and> status pending_db (Some ''t1'') =
       Response
         (Json (JDict
            [(''completed'', JBool False), (''success'', JNull), (''requested'', JInt 0),
             (''execution_time(s)'', JNull), (''comment'', JNull)]))
         200
   \<and> status pending_db (Some ''t2'') = Response (Text ''Not found.'') 404"
proof -
  have "reachable_db empty_db" unfolding empty_db_def by (rule reachable_db.empty)
  then have r: "reachable_db pending_db"
    unfolding pending_db_def
    by (rule reachable_db.enqueued) (rule prod.collapse[symmetric])
  have a: "tickets pending_db ''t1'' =
       Some \<lparr>row_requested_time = 0, row_filesize = 10, row_status = 0,
                     row_success = JNull, row_execution_time = None, row_comment = JNull,
                     row_result = None\<rparr>" by code_simp
  have b: "tickets pending_db ''t2'' = None" by code_simp
  show ?thesis
    using r a b status_reports[OF r, of "''t1''"] status_reports[OF r, of "''t2''"]
    by auto
qed

section \<open>Properties of the endpoints\<close>

lemma path_handler_valid:
  assumes "validate_on_submit form"
    and "uncompress_file (server_fs srv) (resource_data form) = (Inr src, fs1)"
    and "exists fs1 src"
  shows "(response_data form \<noteq> ''prompt'' \<longrightarrow>
           path_handler jt env form srv =
             (Inr (Response
                     (Json (JDict [(''ticket'', JStr (create_ticket env)),
                                   (''endpoint'', JStr (''/resource/'' @ create_ticket env)),
                                   (''status'', JStr (''/status/'' @ create_ticket env))]))
                     202,
                   Some \<lparr>job_ticket = create_ticket env, job_src_path = src, job_form = form,
                         job_type = jt\<rparr>),
              srv\<lparr>server_fs := fs1\<rparr>))
       \<and> (response_data form = ''prompt'' \<and> algorithm env jt form src = Inr result \<longrightarrow>
             path_handler jt env form srv =
               (Inr (Response (Json result) 200, None), srv\<lparr>server_fs := fs1\<rparr>))
       \<and> (response_data form = ''prompt'' \<and> algorithm env jt form src = Inl e \<longrightarrow>
             path_handler jt env form srv = (Inl (PyException e), srv\<lparr>server_fs := fs1\<rparr>))"
  using assms by (simp add: path_handler_def validate_form_def Let_def)

lemma file_handler_valid:
  assumes "validate_on_submit form"
    and "save_to_temp env (snd (get_tmp_dir env (server_fs srv) ''clustering_outliers'')) form
           (fst (get_tmp_dir env (server_fs srv) ''clustering_outliers'')) (create_ticket env)
          = (Inr saved, fs2)"
    and "uncompress_file fs2 saved = (Inr src, fs3)"
  shows "(response_data form \<noteq> ''prompt'' \<longrightarrow>
           file_handler jt env form srv =
             (Inr (Response
                     (Json (JDict [(''ticket'', JStr (create_ticket env)),
                                   (''endpoint'', JStr (''/resource/'' @ create_ticket env)),
                                   (''status'', JStr (''/status/'' @ create_ticket env))]))
                     202,
                   Some \<lparr>job_ticket = create_ticket env, job_src_path = src, job_form = form,
                         job_type = jt\<rparr>),
              srv\<lparr>server_fs := fs3\<rparr>))
       \<and> (response_data form = ''prompt'' \<and> algorithm env jt form src = Inr result \<longrightarrow>
             file_handler jt env form srv =
               (Inr (Response (Json result) 200, None), srv\<lparr>server_fs := fs3\<rparr>))
       \<and> (response_data form = ''prompt'' \<and> algorithm env jt form src = Inl e \<longrightarrow>
             file_handler jt env form srv = (Inl (PyException e), srv\<lparr>server_fs := fs3\<rparr>))"
  using assms by (auto simp: file_handler_def validate_form_def Let_def split: prod.splits)

lemma path_endpoints_cases:
  assumes "(h, alg, jt) \<in> set path_endpoints"
  shows "h = path_handler jt \<and> algorithm env jt = alg env"
  using assms
  by (auto simp: path_endpoints_def k_means_path_def dbscan_path_def agglomerative_path_def
      isolation_forest_path_def local_outlier_factor_path_def svm_path_def algorithm_def
      fun_eq_iff)

lemma file_endpoints_cases:
  assumes "(h, alg, jt) \<in> set file_endpoints"
  shows "h = file_handler jt \<and> algorithm env jt = alg env"
  using assms
  by (auto simp: file_endpoints_def k_means_file_def dbscan_file_def agglomerative_file_def
      isolation_forest_file_def local_outlier_factor_file_def svm_file_def algorithm_def
      fun_eq_iff)

text \<open>
  C8, as stated, fails for a valid prompt submission whose algorithm raises: the
  form validates, the path is staged and exists, and \<^verbatim>\<open>k_means_path\<close> does not
  answer 200 but lets the exception of the algorithm through.
\<close>

theorem prompt_exception_not_caught:
  "validate_on_submit prompt_form
   \<and> response_data prompt_form = ''prompt''
   \<and> uncompress_file (server_fs srv0) (resource_data prompt_form) = (Inr ''/data/x.csv'', mixed_fs)
   \<and> exists mixed_fs ''/data/x.csv''
   \<and> kmeams failing_env prompt_form ''/data/x.csv'' = Inl ''no such column''
   \<and> fst (k_means_path failing_env prompt_form srv0) = Inl (PyException ''no such column'')"
  by code_simp

text \<open>
  C8, amended: for every valid deferred submission (the form validates, staging
  succeeds and, for a path, the staged path exists) the handler answers 202 with a
  body of exactly the three fields ticket, endpoint and status, the latter two
  being the resource and status endpoints of that ticket, and it has submitted the
  job of its own job type without running it: the answer does not depend on the
  algorithm and the store is untouched. For every valid prompt submission the
  handler calls the algorithm of its endpoint; when that returns a result the
  handler answers 200 with the result as the body, and when it raises the handler
  does not catch the exception, so no 200 is given. This holds for each of the
  twelve endpoints with the algorithm and the job type the route table gives it.
\<close>

theorem handler_responses:
  "((handler, alg, jt) \<in> set path_endpoints
      \<and> validate_on_submit form
      \<and> uncompress_file (server_fs srv) (resource_data form) = (Inr src, fsa)
      \<and> exists fsa src \<longrightarrow>
        (response_data form \<noteq> ''prompt'' \<longrightarrow>
           handler env form srv =
             (Inr (Response
                     (Json (JDict [(''ticket'', JStr (create_ticket env)),
                                   (''endpoint'', JStr (''/resource/'' @ create_ticket env)),
                                   (''status'', JStr (''/status/'' @ create_ticket env))]))
                     202,
                   Some \<lparr>job_ticket = create_ticket env, job_src_path = src, job_form = form,
                         job_type = jt\<rparr>),
              srv\<lparr>server_fs := fsa\<rparr>))
        \<and> (response_data form = ''prompt'' \<and> alg env form src = Inr result \<longrightarrow>
             handler env form srv =
               (Inr (Response (Json result) 200, None), srv\<lparr>server_fs := fsa\<rparr>))
        \<and> (response_data form = ''prompt'' \<and> alg env form src = Inl e \<longrightarrow>
             handler env form srv = (Inl (PyException e), srv\<lparr>server_fs := fsa\<rparr>)))
   \<and> ((handler', alg', jt') \<in> set file_endpoints
      \<and> validate_on_submit form
      \<and> save_to_temp env (snd (get_tmp_dir env (server_fs srv) ''clustering_outliers'')) form
           (fst (get_tmp_dir env (server_fs srv) ''clustering_outliers'')) (create_ticket env)
          = (Inr saved, fsb)
      \<and> uncompress_file fsb saved = (Inr src', fsc) \<longrightarrow>
        (response_data form \<noteq> ''prompt'' \<longrightarrow>
           handler' env form srv =
             (Inr (Response
                     (Json (JDict [(''ticket'', JStr (create_ticket env)),
                                   (''endpoint'', JStr (''/resource/'' @ create_ticket env)),
                                   (''status'', JStr (''/status/'' @ create_ticket env))]))
                     202,
                   Some \<lparr>job_ticket = create_ticket env, job_src_path = src', job_form = form,
                         job_type = jt'\<rparr>),
              srv\<lparr>server_fs := fsc\<rparr>))
        \<and> (response_data form = ''prompt'' \<and> alg' env form src' = Inr result \<longrightarrow>
             handler' env form srv =
               (Inr (Response (Json result) 200, None), srv\<lparr>server_fs := fsc\<rparr>))
        \<and> (response_data form = ''prompt'' \<and> alg' env form src' = Inl e \<longrightarrow>
             handler' env form srv = (Inl (PyException e), srv\<lparr>server_fs := fsc\<rparr>)))"
proof -
  have paths: "(handler, alg, jt) \<in> set path_endpoints
      \<and> validate_on_submit form
      \<and> uncompress_file (server_fs srv) (resource_data form) = (Inr src, fsa)
      \<and> exists fsa src \<longrightarrow>
        (response_data form \<noteq> ''prompt'' \<longrightarrow>
           handler env form srv =
             (Inr (Response
                     (Json (JDict [(''ticket'', JStr (create_ticket env)),
                                   (''endpoint'', JStr (''/resource/'' @ create_ticket env)),
                                   (''status'', JStr (''/status/'' @ create_ticket env))]))
                     202,
                   Some \<lparr>job_ticket = create_ticket env, job_src_path = src, job_form = form,
                         job_type = jt\<rparr>),
              srv\<lparr>server_fs := fsa\<rparr>))
        \<and> (response_data form = ''prompt'' \<and> alg env form src = Inr result \<longrightarrow>
             handler env form srv =
               (Inr (Response (Json result) 200, None), srv\<lparr>server_fs := fsa\<rparr>))
        \<and> (response_data form = ''prompt'' \<and> alg env form src = Inl e \<longrightarrow>
             handler env form srv = (Inl (PyException e), srv\<lparr>server_fs := fsa\<rparr>))"
  proof
  assume h: "(handler, alg, jt) \<in> set path_endpoints
      \<and> validate_on_submit form
      \<and> uncompress_file (server_fs srv) (resource_data form) = (Inr src, fsa)
      \<and> exists fsa src"
  from path_endpoints_cases[of handler alg jt env] h
  have eq: "handler = path_handler jt" "algorithm env jt = alg env" by simp_all
  from h have v: "validate_on_submit form"
    and u: "uncompress_file (server_fs srv) (resource_data form) = (Inr src, fsa)"
    and x: "exists fsa src" by simp_all
  show "(response_data form \<noteq> ''prompt'' \<longrightarrow>
           handler env form srv =
             (Inr (Response
                     (Json (JDict [(''ticket'', JStr (create_ticket env)),
                                   (''endpoint'', JStr (''/resource/'' @ create_ticket env)),
                                   (''status'', JStr (''/status/'' @ create_ticket env))]))
                     202,
                   Some \<lparr>job_ticket = create_ticket env, job_src_path = src, job_form = form,
                         job_type = jt\<rparr>),
              srv\<lparr>server_fs := fsa\<rparr>))
        \<and> (response_data form = ''prompt'' \<and> alg env form src = Inr result \<longrightarrow>
             handler env form srv =
               (Inr (Response (Json result) 200, None), srv\<lparr>server_fs := fsa\<rparr>))
        \<and> (response_data form = ''prompt'' \<and> alg env form src = Inl e \<longrightarrow>
             handler env form srv = (Inl (PyException e), srv\<lparr>server_fs := fsa\<rparr>))"
    using path_handler_valid[OF v u x, of jt env result e] eq by simp
  qed
  have files: "(handler', alg', jt') \<in> set file_endpoints
      \<and> validate_on_submit form
      \<and> save_to_temp env (snd (get_tmp_dir env (server_fs srv) ''clustering_outliers'')) form
           (fst (get_tmp_dir env (server_fs srv) ''clustering_outliers'')) (create_ticket env)
          = (Inr saved, fsb)
      \<and> uncompress_file fsb saved = (Inr src', fsc) \<longrightarrow>
        (response_data form \<noteq> ''prompt'' \<longrightarrow>
           handler' env form srv =
             (Inr (Response
                     (Json (JDict [(''ticket'', JStr (create_ticket env)),
                                   (''endpoint'', JStr (''/resource/'' @ create_ticket env)),
                                   (''status'', JStr (''/status/'' @ create_ticket env))]))
                     202,
                   Some \<lparr>job_ticket = create_ticket env, job_src_path = src', job_form = form,
                         job_type = jt'\<rparr>),
              srv\<lparr>server_fs := fsc\<rparr>))
        \<and> (response_data form = ''prompt'' \<and> alg' env form src' = Inr result \<longrightarrow>
             handler' env form srv =
               (Inr (Response (Json result) 200, None), srv\<lparr>server_fs := fsc\<rparr>))
        \<and> (response_data form = ''prompt'' \<and> alg' env form src' = Inl e \<longrightarrow>
             handler' env form srv = (Inl (PyException e), srv\<lparr>server_fs := fsc\<rparr>))"
  proof
  assume h: "(handler', alg', jt') \<in> set file_endpoints
      \<and> validate_on_submit form
      \<and> save_to_temp env (snd (get_tmp_dir env (server_fs srv) ''clustering_outliers'')) form
           (fst (get_tmp_dir env (server_fs srv) ''clustering_outliers'')) (create_ticket env)
          = (Inr saved, fsb)
      \<and> uncompress_file fsb saved = (Inr src', fsc)"
  from file_endpoints_cases[of handler' alg' jt' env] h
  have eq: "handler' = file_handler jt'" "algorithm env jt' = alg' env" by simp_all
  from h have v: "validate_on_submit form"
    and sv: "save_to_temp env (snd (get_tmp_dir env (server_fs srv) ''clustering_outliers'')) form
           (fst (get_tmp_dir env (server_fs srv) ''clustering_outliers'')) (create_ticket env)
          = (Inr saved, fsb)"
    and u: "uncompress_file fsb saved = (Inr src', fsc)" by simp_all
  show "(response_data form \<noteq> ''prompt'' \<longrightarrow>
           handler' env form srv =
             (Inr (Response
                     (Json (JDict [(''ticket'', JStr (create_ticket env)),
                                   (''endpoint'', JStr (''/resource/'' @ create_ticket env)),
                                   (''status'', JStr (''/status/'' @ create_ticket env))]))
                     202,
                   Some \<lparr>job_ticket = create_ticket env, job_src_path = src', job_form = form,
                         job_type = jt'\<rparr>),
              srv\<lparr>server_fs := fsc\<rparr>))
        \<and> (response_data form = ''prompt'' \<and> alg' env form src' = Inr result \<longrightarrow>
             handler' env form srv =
               (Inr (Response (Json result) 200, None), srv\<lparr>server_fs := fsc\<rparr>))
        \<and> (response_data form = ''prompt'' \<and> alg' env form src' = Inl e \<longrightarrow>
             handler' env form srv = (Inl (PyException e), srv\<lparr>server_fs := fsc\<rparr>))"
    using file_handler_valid[OF v sv u, of jt' result e] eq by simp
  qed
  from paths files show ?thesis by (rule conjI)
qed

text \<open>
  The amended C8 at the path \<open>/data/x.csv\<close> submitted to \<^verbatim>\<open>k_means_path\<close>,
  deferred and prompt, to \<^verbatim>\<open>dbscan_path\<close> in an environment whose k-means
  raises and whose DBSCAN returns, and at the upload \<open>x.csv\<close> submitted to
  \<^verbatim>\<open>svm_file\<close>, deferred.
\<close>

theorem handler_responses_witness:
  "(k_means_path, kmeams, KMEANS) \<in> set path_endpoints
   \<and> (dbscan_path, dbscan, DBSCAN) \<in> set path_endpoints
   \<and> validate_on_submit deferred_form
   \<and> uncompress_file (server_fs srv0) (resource_data deferred_form) = (Inr ''/data/x.csv'', mixed_fs)
   \<and> exists mixed_fs ''/data/x.csv''
   \<and> response_data deferred_form \<noteq> ''prompt''
   \<and> response_data prompt_form = ''prompt''
   \<and> kmeams ok_env prompt_form ''/data/x.csv'' = Inr result0
   \<and> fst (k_means_path ok_env deferred_form srv0) =
       Inr (Response
              (Json (JDict [(''ticket'', JStr ''t1''), (''endpoint'', JStr ''/resource/t1''),
                            (''status'', JStr ''/status/t1'')]))
              202,
            Some \<lparr>job_ticket = ''t1'', job_src_path = ''/data/x.csv'', job_form = deferred_form,
                  job_type = KMEANS\<rparr>)
   \<and> fst (k_means_path ok_env prompt_form srv0) = Inr (Response (Json result0) 200, None)
   \<and> fst (k_means_path failing_env prompt_form srv0) = Inl (PyException ''no such column'')
   \<and> fst (dbscan_path failing_env prompt_form srv0) = Inr (Response (Json result0) 200, None)
   \<and> (svm_file, one_class_svm, SVM) \<in> set file_endpoints
   \<and> validate_on_submit upload_form
   \<and> response_data upload_form \<noteq> ''prompt''
   \<and> fst (save_to_temp ok_env (snd (get_tmp_dir ok_env (server_fs srv0) ''clustering_outliers''))
            upload_form (fst (get_tmp_dir ok_env (server_fs srv0) ''clustering_outliers''))
            (create_ticket ok_env)) = Inr ''/tmp/clustering_outliers/src/t1/x.csv''
   \<and> fst (svm_file ok_env upload_form srv0) =
       Inr (Response
              (Json (JDict [(''ticket'', JStr ''t1''), (''endpoint'', JStr ''/resource/t1''),
                            (''status'', JStr ''/status/t1'')]))
              202,
            Some \<lparr>job_ticket = ''t1'', job_src_path = ''/tmp/clustering_outliers/src/t1/x.csv'',
                  job_form = upload_form, job_type = SVM\<rparr>)"
proof -
  let ?saved = "save_to_temp ok_env (snd (get_tmp_dir ok_env (server_fs srv0) ''clustering_outliers''))
            upload_form (fst (get_tmp_dir ok_env (server_fs srv0) ''clustering_outliers''))
            (create_ticket ok_env)"
  have m: "(k_means_path, kmeams, KMEANS) \<in> set path_endpoints"
    "(dbscan_path, dbscan, DBSCAN) \<in> set path_endpoints"
    by (simp_all add: path_endpoints_def)
  have v: "validate_on_submit deferred_form" "validate_on_submit prompt_form" by code_simp+
  have u: "uncompress_file (server_fs srv0) (resource_data deferred_form)
             = (Inr ''/data/x.csv'', mixed_fs)"
    "uncompress_file (server_fs srv0) (resource_data prompt_form)
             = (Inr ''/data/x.csv'', mixed_fs)"
    by code_simp+
  have x: "exists mixed_fs ''/data/x.csv''" by code_simp
  have d: "response_data deferred_form \<noteq> ''prompt''" by code_simp
  have p: "response_data prompt_form = ''prompt''" by code_simp
  have a: "kmeams ok_env prompt_form ''/data/x.csv'' = Inr result0"
    "kmeams failing_env prompt_form ''/data/x.csv'' = Inl ''no such column''"
    "dbscan failing_env prompt_form ''/data/x.csv'' = Inr result0"
    by code_simp+
  have t: "create_ticket ok_env = ''t1''" by code_simp
  have 1: "fst (k_means_path ok_env deferred_form srv0) =
       Inr (Response
              (Json (JDict [(''ticket'', JStr ''t1''), (''endpoint'', JStr ''/resource/t1''),
                            (''status'', JStr ''/status/t1'')]))
              202,
            Some \<lparr>job_ticket = ''t1'', job_src_path = ''/data/x.csv'', job_form = deferred_form,
                  job_type = KMEANS\<rparr>)"
    using handler_responses[where handler = k_means_path and alg = kmeams and jt = KMEANS
        and form = deferred_form and srv = srv0 and src = "''/data/x.csv''" and fsa = mixed_fs
        and env = ok_env and handler' = undefined and alg' = undefined and jt' = undefined]
      m v u x d t by simp
  have 2: "fst (k_means_path ok_env prompt_form srv0) = Inr (Response (Json result0) 200, None)"
    using handler_responses[where handler = k_means_path and alg = kmeams and jt = KMEANS
        and form = prompt_form and srv = srv0 and src = "''/data/x.csv''" and fsa = mixed_fs
        and env = ok_env and result = result0
        and handler' = undefined and alg' = undefined and jt' = undefined]
      m v u x p a by simp
  have 3: "fst (k_means_path failing_env prompt_form srv0) = Inl (PyException ''no such column'')"
    using handler_responses[where handler = k_means_path and alg = kmeams and jt = KMEANS
        and form = prompt_form and srv = srv0 and src = "''/data/x.csv''" and fsa = mixed_fs
        and env = failing_env and e = "''no such column''"
        and handler' = undefined and alg' = undefined and jt' = undefined]
      m v u x p a by simp
  have 4: "fst (dbscan_path failing_env prompt_form srv0) = Inr (Response (Json result0) 200, None)"
    using handler_responses[where handler = dbscan_path and alg = dbscan and jt = DBSCAN
        and form = prompt_form and srv = srv0 and src = "''/data/x.csv''" and fsa = mixed_fs
        and env = failing_env and result = result0
        and handler' = undefined and alg' = undefined and jt' = undefined]
      m v u x p a by simp
  have mf: "(svm_file, one_class_svm, SVM) \<in> set file_endpoints"
    by (simp add: file_endpoints_def)
  have vf: "validate_on_submit upload_form" by code_simp
  have df: "response_data upload_form \<noteq> ''prompt''" by code_simp
  have sf: "fst ?saved = Inr ''/tmp/clustering_outliers/src/t1/x.csv''" by code_simp
  then have sf': "?saved = (Inr ''/tmp/clustering_outliers/src/t1/x.csv'', snd ?saved)"
    by (metis prod.collapse)
  have uf: "uncompress_file (snd ?saved) ''/tmp/clustering_outliers/src/t1/x.csv'' =
              (Inr ''/tmp/clustering_outliers/src/t1/x.csv'', snd ?saved)"
    by code_simp
  have 5: "fst (svm_file ok_env upload_form srv0) =
       Inr (Response
              (Json (JDict [(''ticket'', JStr ''t1''), (''endpoint'', JStr ''/resource/t1''),
                            (''status'', JStr ''/status/t1'')]))
              202,
            Some \<lparr>job_ticket = ''t1'', job_src_path = ''/tmp/clustering_outliers/src/t1/x.csv'',
                  job_form = upload_form, job_type = SVM\<rparr>)"
    using handler_responses[where handler' = svm_file and alg' = one_class_svm and jt' = SVM
        and form = upload_form and srv = srv0 and env = ok_env
        and saved = "''/tmp/clustering_outliers/src/t1/x.csv''" and fsb = "snd ?saved"
        and src' = "''/tmp/clustering_outliers/src/t1/x.csv''" and fsc = "snd ?saved"
        and handler = undefined and alg = undefined and jt = undefined]
      mf vf sf' uf df t by simp
  show ?thesis using m v u x d p a 1 2 3 4 mf vf df sf 5 by simp
qed

text \<open>
  C9: \<^verbatim>\<open>health_check\<close> always answers 200: with the status \<open>OK\<close> when the
  temporary directory is writable and the store can be reached, and otherwise with
  the status \<open>FAILED\<close>, a reason and a detail. A failed check is never an HTTP
  error. The reason names the probe that failed, the temporary directory first,
  and the detail is the text of its exception.
\<close>

theorem health_check_200:
  "code (health_check writable selected) = 200
   \<and> (writable = Inr () \<and> selected = Inr ()
        \<longrightarrow> body (health_check writable selected) = Json (JDict [(''status'', JStr ''OK'')]))
   \<and> (\<not> (writable = Inr () \<and> selected = Inr ())
        \<longrightarrow> (\<exists>reason detail.
               body (health_check writable selected) =
                 Json (JDict [(''status'', JStr ''FAILED''), (''reason'', JStr reason),
                              (''detail'', JStr detail)])))
   \<and> (writable = Inl exc
        \<longrightarrow> body (health_check writable selected) =
              Json (JDict [(''status'', JStr ''FAILED''),
                           (''reason'', JStr ''temp directory not writable''),
                           (''detail'', JStr exc)]))
   \<and> (writable = Inr () \<and> selected = Inl exc
        \<longrightarrow> body (health_check writable selected) =
              Json (JDict [(''status'', JStr ''FAILED''),
                           (''reason'', JStr ''cannot connect to SQLite backend''),
                           (''detail'', JStr exc)]))"
  by (auto simp: health_check_def split: sum.splits)

text \<open>C9 at a healthy server and at one whose temporary directory is not writable.\<close>

theorem health_check_200_witness:
  "health_check (Inr ()) (Inr ()) = Response (Json (JDict [(''status'', JStr ''OK'')])) 200
   \<and> code (health_check (Inl ''Permission denied'') (Inr ())) = 200
   \<and> (\<exists>reason detail.
        body (health_check (Inl ''Permission denied'') (Inr ())) =
          Json (JDict [(''status'', JStr ''FAILED''), (''reason'', JStr reason),
                       (''detail'', JStr detail)]))"
  using health_check_200[of "Inr ()" "Inr ()"] health_check_200[of "Inl ''Permission denied''" "Inr ()"]
  by (cases "health_check (Inr ()) (Inr ())") auto

end
